theory Spec2Isabelle
  imports Main "HOL-Library.AList" "HOL-Library.Word"
begin

section \<open>Python strings\<close>

text \<open>
  A Python \<open>str\<close> is a sequence of Unicode code points. The documents handled here are
  Russian legal texts, so a character is modelled by its code point (a natural number)
  and a string by the list of its code points; \<open>len\<close> is \<open>length\<close>.
  ASCII literals of the source are written with \<open>lit\<close>.
\<close>

type_synonym pystr = "nat list"

definition lit :: "string \<Rightarrow> pystr" where
  "lit s = map of_char s"

text \<open>
  \<open>str.isspace\<close> for one character, as CPython's \<open>_PyUnicode_IsWhitespace\<close> lists it:
  this is the set \<open>str.strip()\<close> removes when called without an argument.
\<close>

definition isspace :: "nat \<Rightarrow> bool" where
  "isspace c =
     ((9 \<le> c \<and> c \<le> 13) \<or> (28 \<le> c \<and> c \<le> 32) \<or> c = 133 \<or> c = 160 \<or> c = 5760 \<or>
      (8192 \<le> c \<and> c \<le> 8202) \<or> c = 8232 \<or> c = 8233 \<or> c = 8239 \<or> c = 8287 \<or>
      c = 12288)"

definition strip :: "pystr \<Rightarrow> pystr" where
  "strip s = rev (dropWhile isspace (rev (dropWhile isspace s)))"

text \<open>
  \<open>s[a:b]\<close> for arbitrary integers: a negative index counts from the end, and both
  indices are clamped to \<open>0..len(s)\<close>. Slicing never raises.
\<close>

definition clamp_index :: "nat \<Rightarrow> int \<Rightarrow> nat" where
  "clamp_index n i = (let j = (if i < 0 then i + int n else i) in
                        if j < 0 then 0 else if int n < j then n else nat j)"

definition py_slice :: "'a list \<Rightarrow> int \<Rightarrow> int \<Rightarrow> 'a list" where
  "py_slice s a b =
     (let lo = clamp_index (length s) a; hi = clamp_index (length s) b
      in take (hi - lo) (drop lo s))"

text \<open>\<open>sub\<close> occurs in \<open>s\<close> at index \<open>i\<close>.\<close>

definition is_at :: "pystr \<Rightarrow> pystr \<Rightarrow> nat \<Rightarrow> bool" where
  "is_at sub s i = (take (length sub) (drop i s) = sub)"

text \<open>\<open>s.rfind(sub)\<close>: the highest index where \<open>sub\<close> occurs, \<open>-1\<close> when it does not.\<close>

definition rfind :: "pystr \<Rightarrow> pystr \<Rightarrow> int" where
  "rfind s sub =
     (case filter (is_at sub s) (rev [0..<Suc (length s)]) of
        [] \<Rightarrow> - 1
      | i # _ \<Rightarrow> int i)"

text \<open>\<open>sub in s\<close>.\<close>

definition py_in :: "pystr \<Rightarrow> pystr \<Rightarrow> bool" where
  "py_in sub s = list_ex (is_at sub s) [0..<Suc (length s)]"

text \<open>\<open>str(n)\<close> for a non-negative integer.\<close>

function str_nat :: "nat \<Rightarrow> pystr" where
  "str_nat n = (if n < 10 then [48 + n] else str_nat (n div 10) @ [48 + n mod 10])"
  by pat_completeness auto
termination
  by (relation "measure id") auto

declare str_nat.simps [simp del]

section \<open>The chunker: \<open>DocumentProcessor.split_into_chunks\<close>\<close>

record chunk =
  c_id :: pystr
  c_text :: pystr
  c_source :: pystr
  c_index :: nat

text \<open>The separators of the inner \<open>for\<close> loop, in the source's order:
  \<open>".\\n"\<close>, \<open>"\\n"\<close>, \<open>". "\<close>, \<open>"? "\<close>, \<open>"! "\<close>.\<close>

definition seps :: "pystr list" where
  "seps = [[46, 10], [10], [46, 32], [63, 32], [33, 32]]"

text \<open>
  The inner loop over the separators (source lines 84 to 89). The source compares the
  integer \<open>pos\<close> with the float \<open>chunk_size * 0.4\<close>; Python compares an integer with a
  float by value, and for chunk sizes below \<open>2^50\<close> in magnitude the rounded product
  lies on the same side of every integer as the exact \<open>2 * chunk_size / 5\<close>, so the
  test is \<open>5 * pos > 2 * chunk_size\<close>. The result is the shortened chunk text of the
  first separator that passes the test, \<open>None\<close> when no separator does.
\<close>

fun snap :: "int \<Rightarrow> pystr \<Rightarrow> pystr list \<Rightarrow> pystr option" where
  "snap chunk_size chunk_text [] = None"
| "snap chunk_size chunk_text (sep # rest) =
     (let pos = rfind chunk_text sep in
      if 5 * pos > 2 * chunk_size
      then Some (py_slice chunk_text 0 (pos + int (length sep)))
      else snap chunk_size chunk_text rest)"

text \<open>Source lines 79 to 89: the window of one iteration, as \<open>(chunk_text, end)\<close>.\<close>

definition window :: "int \<Rightarrow> pystr \<Rightarrow> int \<Rightarrow> pystr \<times> int" where
  "window chunk_size txt start =
     (let end0 = min (start + chunk_size) (int (length txt));
          chunk_text = py_slice txt start end0
      in if end0 < int (length txt)
         then (case snap chunk_size chunk_text seps of
                 Some shortened \<Rightarrow> (shortened, start + int (length shortened))
               | None \<Rightarrow> (chunk_text, end0))
         else (chunk_text, end0))"

definition mk_chunk :: "pystr \<Rightarrow> nat \<Rightarrow> pystr \<Rightarrow> chunk" where
  "mk_chunk src chunk_id clean =
     \<lparr>c_id = src @ lit ''_chunk_'' @ str_nat chunk_id, c_text = clean,
      c_source = src, c_index = chunk_id\<rparr>"

text \<open>
  The \<open>while\<close> loop (source lines 78 to 108). It may run forever, so the model is a
  partial function: \<open>None\<close> means that the loop does not return.
\<close>

partial_function (option) split_loop ::
  "int \<Rightarrow> int \<Rightarrow> pystr \<Rightarrow> pystr \<Rightarrow> int \<Rightarrow> nat \<Rightarrow> chunk list \<Rightarrow> chunk list option"
where
  "split_loop chunk_size chunk_overlap src txt start chunk_id chunks =
     (if start < int (length txt) then
        (case window chunk_size txt start of
           (chunk_text, end) \<Rightarrow>
             (let clean = strip chunk_text;
                  chunks' = (if clean \<noteq> [] then chunks @ [mk_chunk src chunk_id clean]
                             else chunks);
                  chunk_id' = (if clean \<noteq> [] then chunk_id + 1 else chunk_id);
                  start' = end - chunk_overlap
              in if start' \<ge> int (length txt) then Some chunks'
                 else if end = int (length txt) then Some chunks'
                 else split_loop chunk_size chunk_overlap src txt start' chunk_id' chunks'))
      else Some chunks)"

definition split_into_chunks :: "int \<Rightarrow> int \<Rightarrow> pystr \<Rightarrow> pystr \<Rightarrow> chunk list option" where
  "split_into_chunks chunk_size chunk_overlap txt src =
     (let t = strip txt in
      if t = [] then Some [] else split_loop chunk_size chunk_overlap src t 0 0 [])"

text \<open>A text without boundary markers: none of the separators occurs in it.\<close>

definition no_boundary :: "pystr \<Rightarrow> bool" where
  "no_boundary s = list_all (\<lambda>sep. \<not> py_in sep s) seps"

section \<open>Exceptions, remote objects and the environment\<close>

text \<open>
  An exception is modelled by its class (as far as the code distinguishes classes),
  its message \<open>str(e)\<close> and the exception it was raised \<open>from\<close>. Every exception of
  the model derives from \<open>Exception\<close>, so \<open>except Exception\<close> catches all of them.
\<close>

datatype exn_kind = RuntimeError | ValueError | TypeError | UnicodeDecodeError | LookupError
  | OSError | OverflowError | RemoteError

datatype exn = Exn (kind: exn_kind) (msg: pystr) (cause: "exn option")

text \<open>An object handed out by an external library (a file, an index, an operation, an
  assistant, a thread, a run, an image, a response), known by its identifier.\<close>

datatype obj = Obj (obj_id: pystr)

text \<open>
  The calls that leave the program, with the arguments that identify them. The fixed
  prompt and instruction texts passed along are constants and are left out.
\<close>

datatype call =
    FilesUpload pystr pystr
  | FilesGet pystr
  | FileDelete obj
  | CreateDeferred obj
  | AddFilesDeferred obj obj
  | OpWait obj
  | IndexDelete obj
  | ToolsSearchIndex obj
  | AssistantsCreate "obj list"
  | AssistantDelete obj
  | ThreadsCreate
  | ThreadWrite obj pystr
  | AssistantRun obj obj
  | RunWait obj
  | ThreadDelete obj
  | ImageOpen pystr
  | ImageResize obj
  | GenerateContent obj
  | ResponseText obj
  | Invoke
  | Sleep int

text \<open>
  The environment answers every call. Its answer may depend on everything that happened
  before (the history of calls, the present one last), so any behaviour of the remote
  services is some environment: each call may return or raise, differently each time.
  \<open>image_size\<close> is the attribute \<open>img.size\<close>, \<open>isfile\<close> is \<open>os.path.isfile\<close>, and
  \<open>path_name\<close> is \<open>Path(p).name\<close>, which depends on the platform. \<open>max_sleep\<close> is
  the longest sleep, in seconds, that the platform's \<open>time.sleep\<close> accepts: 9223372036
  where CPython keeps the delay in 64-bit nanoseconds, less on some platforms.
\<close>

record env =
  returns_obj :: "call list \<Rightarrow> exn + obj"
  returns_none :: "call list \<Rightarrow> exn option"
  returns_text :: "call list \<Rightarrow> exn + pystr option"
  returns_str :: "call list \<Rightarrow> exn + pystr"
  image_size :: "obj \<Rightarrow> nat \<times> nat"
  isfile :: "pystr \<Rightarrow> bool"
  path_name :: "pystr \<Rightarrow> pystr"
  max_sleep :: int

definition call_obj :: "env \<Rightarrow> call \<Rightarrow> call list \<Rightarrow> (exn + obj) \<times> call list" where
  "call_obj E c h = (returns_obj E (h @ [c]), h @ [c])"

definition call_none :: "env \<Rightarrow> call \<Rightarrow> call list \<Rightarrow> (exn + unit) \<times> call list" where
  "call_none E c h =
     ((case returns_none E (h @ [c]) of Some e \<Rightarrow> Inl e | None \<Rightarrow> Inr ()), h @ [c])"

definition call_text :: "env \<Rightarrow> call \<Rightarrow> call list \<Rightarrow> (exn + pystr option) \<times> call list" where
  "call_text E c h = (returns_text E (h @ [c]), h @ [c])"

definition call_str :: "env \<Rightarrow> call \<Rightarrow> call list \<Rightarrow> (exn + pystr) \<times> call list" where
  "call_str E c h = (returns_str E (h @ [c]), h @ [c])"

section \<open>The retry wrapper: \<open>_retry_call\<close>\<close>

text \<open>\<open>time.sleep\<close> rejects a negative argument with a \<open>ValueError\<close> and an argument
  beyond the platform's limit with an \<open>OverflowError\<close>; otherwise it sleeps.\<close>

definition time_sleep :: "env \<Rightarrow> int \<Rightarrow> call list \<Rightarrow> (exn + unit) \<times> call list" where
  "time_sleep E delay h =
     (if delay < 0
      then (Inl (Exn ValueError (lit ''sleep length must be non-negative'') None), h)
      else if max_sleep E < delay
      then (Inl (Exn OverflowError (lit ''timestamp too large to convert to C _PyTime_t'') None), h)
      else (Inr (), h @ [Sleep delay]))"

definition is_rate_limit :: "exn \<Rightarrow> bool" where
  "is_rate_limit e =
     (let err_str = msg e in
      py_in (lit ''429'') err_str \<or> py_in (lit ''ResourceExhausted'') err_str)"

text \<open>
  The \<open>for attempt in range(max_retries + 1)\<close> loop, from \<open>attempt\<close> on. A sleep that
  raises does so inside the handler, so its exception leaves the function. After the
  loop the source raises \<open>last_err\<close>; raising \<open>None\<close> is a \<open>TypeError\<close>.
\<close>

function retry_loop ::
  "env \<Rightarrow> (call list \<Rightarrow> (exn + 'a) \<times> call list) \<Rightarrow> int \<Rightarrow> int \<Rightarrow> int \<Rightarrow> exn option
   \<Rightarrow> call list \<Rightarrow> (exn + 'a) \<times> call list"
where
  "retry_loop E fn max_retries base_delay attempt last_err h =
     (if attempt < max_retries + 1 then
        (case fn h of
           (Inr v, h1) \<Rightarrow> (Inr v, h1)
         | (Inl e, h1) \<Rightarrow>
             if is_rate_limit e \<and> attempt < max_retries then
               (case time_sleep E (base_delay * 2 ^ nat attempt) h1 of
                  (Inl e', h2) \<Rightarrow> (Inl e', h2)
                | (Inr u, h2) \<Rightarrow>
                    retry_loop E fn max_retries base_delay (attempt + 1) (Some e) h2)
             else (Inl e, h1))
      else (case last_err of
              Some e \<Rightarrow> (Inl e, h)
            | None \<Rightarrow> (Inl (Exn TypeError
                (lit ''exceptions must derive from BaseException'') None), h)))"
  by pat_completeness auto
termination
  by (relation "measure (\<lambda>(E, fn, max_retries, base_delay, attempt, last_err, h).
                  nat (max_retries + 1 - attempt))") auto

declare retry_loop.simps [simp del]

definition retry_call ::
  "env \<Rightarrow> (call list \<Rightarrow> (exn + 'a) \<times> call list) \<Rightarrow> int \<Rightarrow> int \<Rightarrow> call list
   \<Rightarrow> (exn + 'a) \<times> call list"
where
  "retry_call E fn max_retries base_delay h = retry_loop E fn max_retries base_delay 0 None h"

text \<open>The defaults, from \<open>app/config.py\<close>.\<close>

definition MAX_RETRIES :: int where
  "MAX_RETRIES = 3"

definition RETRY_BASE_DELAY :: int where
  "RETRY_BASE_DELAY = 5"

text \<open>
  An operation given by the outcome of each of its invocations: the \<open>i\<close>-th invocation
  (counted from 0 in the history) returns or raises \<open>outcomes i\<close>.
\<close>

definition scripted :: "(nat \<Rightarrow> exn + 'a) \<Rightarrow> call list \<Rightarrow> (exn + 'a) \<times> call list" where
  "scripted outcomes h = (outcomes (count_list h Invoke), h @ [Invoke])"

text \<open>The history a run of \<open>k\<close> failed attempts leaves: each invocation followed by its
  sleep.\<close>

definition backoff_trace :: "int \<Rightarrow> nat \<Rightarrow> call list" where
  "backoff_trace base_delay k = concat (map (\<lambda>i. [Invoke, Sleep (base_delay * 2 ^ i)]) [0..<k])"

section \<open>Literal texts of \<open>rag_engine.py\<close> and \<open>document_processor.py\<close>\<close>

text \<open>The hint of \<open>status_hints\<close> for \<open>PERMISSION_DENIED\<close> (Russian text, as code points).\<close>

definition HINT_PERMISSION_DENIED :: pystr where
  "HINT_PERMISSION_DENIED =
     [1044, 1086, 1089, 1090, 1091, 1087, 32, 1079, 1072, 1087, 1088, 1077, 1097, 1105,
      1085, 46, 32, 1055, 1088, 1086, 1074, 1077, 1088, 1100, 1090, 1077, 58, 10, 32, 32,
      49, 41, 32, 65, 80, 73, 45, 1082, 1083, 1102, 1095, 32, 1082, 1086, 1088, 1088, 1077,
      1082, 1090, 1085, 1099, 1081, 32, 40, 1085, 1077, 32, 79, 65, 117, 116, 104, 45, 1090,
      1086, 1082, 1077, 1085, 41, 10, 32, 32, 50, 41, 32, 65, 80, 73, 45, 1082, 1083, 1102,
      1095, 32, 1087, 1088, 1080, 1074, 1103, 1079, 1072, 1085, 32, 1082, 32, 1089, 1077,
      1088, 1074, 1080, 1089, 1085, 1086, 1084, 1091, 32, 1072, 1082, 1082, 1072, 1091,
      1085, 1090, 1091, 32, 1089, 32, 1088, 1086, 1083, 1103, 1084, 1080, 58, 10, 32, 32,
      32, 32, 32, 45, 32, 97, 105, 46, 101, 100, 105, 116, 111, 114, 32, 40, 1080, 1083,
      1080, 32, 97, 105, 46, 97, 100, 109, 105, 110, 41, 10, 32, 32, 32, 32, 32, 45, 32, 97,
      105, 46, 97, 115, 115, 105, 115, 116, 97, 110, 116, 115, 46, 101, 100, 105, 116, 111,
      114, 10, 32, 32, 51, 41, 32, 70, 111, 108, 100, 101, 114, 32, 73, 68, 32, 45, 32,
      1087, 1088, 1072, 1074, 1080, 1083, 1100, 1085, 1099, 1081, 10, 32, 32, 52, 41, 32,
      1057, 1077, 1088, 1074, 1080, 1089, 1085, 1099, 1081, 32, 1072, 1082, 1082, 1072,
      1091, 1085, 1090, 32, 1089, 1086, 1089, 1090, 1086, 1080, 1090, 32, 1074, 32, 1101,
      1090, 1086, 1084, 32, 1082, 1072, 1090, 1072, 1083, 1086, 1075, 1077]"

text \<open>The hint of \<open>status_hints\<close> for \<open>UNAUTHENTICATED\<close> (Russian text, as code points).\<close>

definition HINT_UNAUTHENTICATED :: pystr where
  "HINT_UNAUTHENTICATED =
     [1053, 1077, 32, 1072, 1074, 1090, 1086, 1088, 1080, 1079, 1086, 1074, 1072, 1085, 46,
      32, 65, 80, 73, 45, 1082, 1083, 1102, 1095, 32, 1085, 1077, 1076, 1077, 1081, 1089,
      1090, 1074, 1080, 1090, 1077, 1083, 1077, 1085, 32, 1080, 1083, 1080, 32, 1080, 1089,
      1090, 1105, 1082, 46, 10, 1057, 1086, 1079, 1076, 1072, 1081, 1090, 1077, 32, 1085,
      1086, 1074, 1099, 1081, 32, 1082, 1083, 1102, 1095, 32, 1085, 1072, 32, 104, 116, 116,
      112, 115, 58, 47, 47, 99, 111, 110, 115, 111, 108, 101, 46, 121, 97, 110, 100, 101,
      120, 46, 99, 108, 111, 117, 100, 47]"

text \<open>The hint of \<open>status_hints\<close> for \<open>NOT_FOUND\<close> (Russian text, as code points).\<close>

definition HINT_NOT_FOUND :: pystr where
  "HINT_NOT_FOUND =
     [1056, 1077, 1089, 1091, 1088, 1089, 32, 1085, 1077, 32, 1085, 1072, 1081, 1076, 1077,
      1085, 46, 32, 1055, 1088, 1086, 1074, 1077, 1088, 1100, 1090, 1077, 32, 70, 111, 108,
      100, 101, 114, 32, 73, 68, 46]"

text \<open>The hint of \<open>status_hints\<close> for \<open>INVALID_ARGUMENT\<close> (Russian text, as code points).\<close>

definition HINT_INVALID_ARGUMENT :: pystr where
  "HINT_INVALID_ARGUMENT =
     [1053, 1077, 1074, 1077, 1088, 1085, 1099, 1081, 32, 1072, 1088, 1075, 1091, 1084,
      1077, 1085, 1090, 46, 32, 1060, 1072, 1081, 1083, 32, 1087, 1086, 1074, 1088, 1077,
      1078, 1076, 1105, 1085, 32, 1080, 1083, 1080, 32, 1092, 1086, 1088, 1084, 1072, 1090,
      32, 1085, 1077, 32, 1087, 1086, 1076, 1076, 1077, 1088, 1078, 1080, 1074, 1072, 1077,
      1090, 1089, 1103, 46]"

text \<open>The hint of \<open>status_hints\<close> for \<open>RESOURCE_EXHAUSTED\<close> (Russian text, as code points).\<close>

definition HINT_RESOURCE_EXHAUSTED :: pystr where
  "HINT_RESOURCE_EXHAUSTED =
     [1051, 1080, 1084, 1080, 1090, 32, 1080, 1089, 1095, 1077, 1088, 1087, 1072, 1085, 46,
      32, 1055, 1086, 1076, 1086, 1078, 1076, 1080, 1090, 1077, 32, 1080, 1083, 1080, 32,
      1091, 1074, 1077, 1083, 1080, 1095, 1100, 1090, 1077, 32, 1082, 1074, 1086, 1090,
      1091, 46]"

text \<open>The literal between the hint and the excerpt in \<open>_parse_grpc_error\<close>: two newlines and the Russian for ``Original: ''.\<close>

definition ORIGINAL_PREFIX :: pystr where
  "ORIGINAL_PREFIX =
     [10, 10, 1054, 1088, 1080, 1075, 1080, 1085, 1072, 1083, 58, 32]"

text \<open>First part of the upload error message of \<open>add_file\<close> (``File upload error '{name}':'').\<close>

definition UPLOAD_ERR_1 :: pystr where
  "UPLOAD_ERR_1 =
     [1054, 1096, 1080, 1073, 1082, 1072, 32, 1079, 1072, 1075, 1088, 1091, 1079, 1082,
      1080, 32, 1092, 1072, 1081, 1083, 1072, 32, 39]"

text \<open>Second part of the upload error message.\<close>

definition UPLOAD_ERR_2 :: pystr where
  "UPLOAD_ERR_2 =
     [39, 58, 10]"

text \<open>First part of the indexing error message of \<open>add_file\<close> (``File '{name}' uploaded, but indexing error:'').\<close>

definition INDEX_ERR_1 :: pystr where
  "INDEX_ERR_1 =
     [1060, 1072, 1081, 1083, 32, 39]"

text \<open>Second part of the indexing error message.\<close>

definition INDEX_ERR_2 :: pystr where
  "INDEX_ERR_2 =
     [39, 32, 1079, 1072, 1075, 1088, 1091, 1078, 1077, 1085, 44, 32, 1085, 1086, 32, 1086,
      1096, 1080, 1073, 1082, 1072, 32, 1080, 1085, 1076, 1077, 1082, 1089, 1072, 1094,
      1080, 1080, 58, 10]"

text \<open>The reply of \<open>YandexRAG.analyze\<close> when no assistant exists after \<open>_ensure_assistant\<close>.\<close>

definition MSG_NO_ASSISTANT :: pystr where
  "MSG_NO_ASSISTANT =
     [40, 1054, 1096, 1080, 1073, 1082, 1072, 58, 32, 1085, 1077, 32, 1091, 1076, 1072,
      1083, 1086, 1089, 1100, 32, 1089, 1086, 1079, 1076, 1072, 1090, 1100, 32, 1072, 1089,
      1089, 1080, 1089, 1090, 1077, 1085, 1090, 1072, 32, 89, 97, 110, 100, 101, 120, 71,
      80, 84, 41]"

text \<open>The reply of \<open>YandexRAG.analyze\<close> for a blank answer.\<close>

definition MSG_EMPTY_REPLY :: pystr where
  "MSG_EMPTY_REPLY =
     [40, 89, 97, 110, 100, 101, 120, 71, 80, 84, 32, 1074, 1077, 1088, 1085, 1091, 1083,
      32, 1087, 1091, 1089, 1090, 1086, 1081, 32, 1086, 1090, 1074, 1077, 1090, 46, 41]"

text \<open>Prefix of the reply of \<open>YandexRAG.analyze\<close> when the conversation fails.\<close>

definition MSG_ANALYZE_ERR :: pystr where
  "MSG_ANALYZE_ERR =
     [1054, 1096, 1080, 1073, 1082, 1072, 32, 1072, 1085, 1072, 1083, 1080, 1079, 1072, 32,
      1095, 1077, 1088, 1077, 1079, 32, 89, 97, 110, 100, 101, 120, 71, 80, 84, 58, 10]"

text \<open>The reply of \<open>analyze_text\<close> and \<open>analyze_image\<close> when Yandex Cloud is not configured.\<close>

definition MSG_NOT_CONFIGURED :: pystr where
  "MSG_NOT_CONFIGURED =
     [89, 97, 110, 100, 101, 120, 32, 67, 108, 111, 117, 100, 32, 1085, 1077, 32, 1085,
      1072, 1089, 1090, 1088, 1086, 1077, 1085, 46, 32, 1040, 1085, 1072, 1083, 1080, 1079,
      32, 1085, 1077, 1074, 1086, 1079, 1084, 1086, 1078, 1077, 1085, 46]"

text \<open>Prefix of the reply of \<open>analyze_image\<close> when the image description fails.\<close>

definition MSG_DESCRIBE_ERR :: pystr where
  "MSG_DESCRIBE_ERR =
     [1054, 1096, 1080, 1073, 1082, 1072, 32, 1086, 1087, 1080, 1089, 1072, 1085, 1080,
      1103, 32, 1080, 1079, 1086, 1073, 1088, 1072, 1078, 1077, 1085, 1080, 1103, 32, 40,
      71, 101, 109, 105, 110, 105, 41, 58, 10]"

text \<open>The reply of \<open>RAGEngine.analyze\<close> when neither an image nor a text was submitted.\<close>

definition MSG_NOTHING :: pystr where
  "MSG_NOTHING =
     [1053, 1077, 32, 1087, 1088, 1077, 1076, 1086, 1089, 1090, 1072, 1074, 1083, 1077,
      1085, 32, 1084, 1072, 1090, 1077, 1088, 1080, 1072, 1083, 32, 1076, 1083, 1103, 32,
      1087, 1088, 1086, 1074, 1077, 1088, 1082, 1080, 46, 32, 1042, 1074, 1077, 1076, 1080,
      1090, 1077, 32, 1090, 1077, 1082, 1089, 1090, 32, 1080, 1083, 1080, 32, 1087, 1088,
      1080, 1082, 1088, 1077, 1087, 1080, 1090, 1077, 32, 1080, 1079, 1086, 1073, 1088,
      1072, 1078, 1077, 1085, 1080, 1077, 46]"

text \<open>Head of the query of \<open>analyze_text\<close>.\<close>

definition QUERY_TEXT_HEAD :: pystr where
  "QUERY_TEXT_HEAD =
     [1055, 1088, 1086, 1074, 1077, 1088, 1100, 32, 1089, 1083, 1077, 1076, 1091, 1102,
      1097, 1080, 1081, 32, 1088, 1077, 1082, 1083, 1072, 1084, 1085, 1099, 1081, 32, 1084,
      1072, 1090, 1077, 1088, 1080, 1072, 1083, 32, 1085, 1072, 32, 1089, 1086, 1086, 1090,
      1074, 1077, 1090, 1089, 1090, 1074, 1080, 1077, 32, 1088, 1086, 1089, 1089, 1080,
      1081, 1089, 1082, 1086, 1084, 1091, 32, 1079, 1072, 1082, 1086, 1085, 1086, 1076,
      1072, 1090, 1077, 1083, 1100, 1089, 1090, 1074, 1091, 32, 1086, 32, 1088, 1077, 1082,
      1083, 1072, 1084, 1077, 58, 10, 10]"

text \<open>First line of the query of \<open>analyze_image\<close>.\<close>

definition QUERY_IMAGE_HEAD :: pystr where
  "QUERY_IMAGE_HEAD =
     [1055, 1088, 1086, 1074, 1077, 1088, 1100, 32, 1089, 1083, 1077, 1076, 1091, 1102,
      1097, 1080, 1081, 32, 1088, 1077, 1082, 1083, 1072, 1084, 1085, 1099, 1081, 32, 1084,
      1072, 1090, 1077, 1088, 1080, 1072, 1083, 32, 1085, 1072, 32, 1089, 1086, 1086, 1090,
      1074, 1077, 1090, 1089, 1090, 1074, 1080, 1077, 32, 1088, 1086, 1089, 1089, 1080,
      1081, 1089, 1082, 1086, 1084, 1091, 32, 1079, 1072, 1082, 1086, 1085, 1086, 1076,
      1072, 1090, 1077, 1083, 1100, 1089, 1090, 1074, 1091, 32, 1086, 32, 1088, 1077, 1082,
      1083, 1072, 1084, 1077, 46]"

text \<open>The heading before the image description in the query.\<close>

definition QUERY_VISUAL :: pystr where
  "QUERY_VISUAL =
     [1054, 1055, 1048, 1057, 1040, 1053, 1048, 1045, 32, 1042, 1048, 1047, 1059, 1040,
      1051, 1068, 1053, 1054, 1043, 1054, 32, 1057, 1054, 1044, 1045, 1056, 1046, 1040,
      1053, 1048, 1071, 58]"

text \<open>The heading before the advertisement text in the query.\<close>

definition QUERY_AD_TEXT :: pystr where
  "QUERY_AD_TEXT =
     [1058, 1045, 1050, 1057, 1058, 32, 1056, 1045, 1050, 1051, 1040, 1052, 1067, 58]"

text \<open>The opening of the document count at the end of a query; the count and \<open>]\<close> follow.\<close>

definition QUERY_COUNT :: pystr where
  "QUERY_COUNT =
     [91, 1044, 1086, 1082, 1091, 1084, 1077, 1085, 1090, 1086, 1074, 32, 1074, 32, 1073,
      1072, 1079, 1077, 32, 1079, 1085, 1072, 1085, 1080, 1081, 58, 32]"

text \<open>Prefix of the error message of \<open>_load_txt\<close> when no encoding worked.\<close>

definition UNREADABLE_PREFIX :: pystr where
  "UNREADABLE_PREFIX =
     [1053, 1077, 32, 1091, 1076, 1072, 1083, 1086, 1089, 1100, 32, 1087, 1088, 1086, 1095,
      1080, 1090, 1072, 1090, 1100, 32, 1092, 1072, 1081, 1083, 58, 32]"

section \<open>\<open>_parse_grpc_error\<close>\<close>

text \<open>The dictionary \<open>status_hints\<close>, in the order the source writes it.\<close>

definition status_hints :: "(pystr \<times> pystr) list" where
  "status_hints =
     [(lit ''PERMISSION_DENIED'', HINT_PERMISSION_DENIED),
      (lit ''UNAUTHENTICATED'', HINT_UNAUTHENTICATED),
      (lit ''NOT_FOUND'', HINT_NOT_FOUND),
      (lit ''INVALID_ARGUMENT'', HINT_INVALID_ARGUMENT),
      (lit ''RESOURCE_EXHAUSTED'', HINT_RESOURCE_EXHAUSTED)]"

fun first_hint :: "pystr \<Rightarrow> (pystr \<times> pystr) list \<Rightarrow> pystr option" where
  "first_hint m [] = None"
| "first_hint m ((code, hint) # rest) =
     (if py_in code m then Some (hint @ ORIGINAL_PREFIX @ take 200 m) else first_hint m rest)"

definition parse_grpc_error :: "exn \<Rightarrow> pystr" where
  "parse_grpc_error e =
     (let m = msg e in
      case first_hint m status_hints of Some r \<Rightarrow> r | None \<Rightarrow> take 300 m)"

section \<open>The knowledge index manager: \<open>YandexRAG\<close>\<close>

text \<open>
  The fields of a \<open>YandexRAG\<close> object. \<open>_files\<close> is a Python dictionary, which keeps
  insertion order: an association list with \<open>AList.update\<close> for \<open>d[k] = v\<close>.
\<close>

record yandex_rag =
  search_index :: "obj option"
  files :: "(pystr \<times> pystr) list"
  assistant :: "obj option"
  index_dirty :: bool

text \<open>\<open>_ensure_assistant\<close>. The deletion of the old assistant is inside
  \<open>try ... except Exception: pass\<close>; the two calls that build the new one are not.\<close>

definition make_tools :: "env \<Rightarrow> obj option \<Rightarrow> call list \<Rightarrow> (exn + obj list) \<times> call list" where
  "make_tools E si h =
     (case si of
        None \<Rightarrow> (Inr [], h)
      | Some i \<Rightarrow>
          (case call_obj E (ToolsSearchIndex i) h of
             (Inl e, h1) \<Rightarrow> (Inl e, h1)
           | (Inr tool, h1) \<Rightarrow> (Inr [tool], h1)))"

definition ensure_assistant ::
  "env \<Rightarrow> yandex_rag \<Rightarrow> call list \<Rightarrow> (exn + unit) \<times> yandex_rag \<times> call list"
where
  "ensure_assistant E self h =
     (if assistant self \<noteq> None \<and> \<not> index_dirty self then (Inr (), self, h)
      else
        (let h1 = (case assistant self of
                     Some a \<Rightarrow> snd (call_none E (AssistantDelete a) h)
                   | None \<Rightarrow> h);
             self1 = self\<lparr>assistant := None\<rparr>
         in case make_tools E (search_index self1) h1 of
              (Inl e, h2) \<Rightarrow> (Inl e, self1, h2)
            | (Inr tools, h2) \<Rightarrow>
                (case call_obj E (AssistantsCreate tools) h2 of
                   (Inl e, h3) \<Rightarrow> (Inl e, self1, h3)
                 | (Inr a, h3) \<Rightarrow>
                     (Inr (), self1\<lparr>assistant := Some a, index_dirty := False\<rparr>, h3))))"

text \<open>The body of the second \<open>try\<close> of \<open>add_file\<close> (source lines 236 to 243): create
  the index from the file, or extend the existing one, and wait for the operation.\<close>

definition index_file ::
  "env \<Rightarrow> obj \<Rightarrow> yandex_rag \<Rightarrow> call list \<Rightarrow> (exn + unit) \<times> yandex_rag \<times> call list"
where
  "index_file E yc_file self h =
     (case search_index self of
        None \<Rightarrow>
          (case call_obj E (CreateDeferred yc_file) h of
             (Inl e, h1) \<Rightarrow> (Inl e, self, h1)
           | (Inr op, h1) \<Rightarrow>
               (case call_obj E (OpWait op) h1 of
                  (Inl e, h2) \<Rightarrow> (Inl e, self, h2)
                | (Inr si, h2) \<Rightarrow> (Inr (), self\<lparr>search_index := Some si\<rparr>, h2)))
      | Some si \<Rightarrow>
          (case call_obj E (AddFilesDeferred si yc_file) h of
             (Inl e, h1) \<Rightarrow> (Inl e, self, h1)
           | (Inr op, h1) \<Rightarrow>
               (case call_obj E (OpWait op) h1 of
                  (Inl e, h2) \<Rightarrow> (Inl e, self, h2)
                | (Inr r, h2) \<Rightarrow> (Inr (), self, h2))))"

definition add_file ::
  "env \<Rightarrow> pystr \<Rightarrow> yandex_rag \<Rightarrow> call list \<Rightarrow> (exn + pystr) \<times> yandex_rag \<times> call list"
where
  "add_file E file_path self h =
     (let name = path_name E file_path in
      case call_obj E (FilesUpload file_path name) h of
        (Inl e, h1) \<Rightarrow>
          (Inl (Exn RuntimeError (UPLOAD_ERR_1 @ name @ UPLOAD_ERR_2 @ parse_grpc_error e)
                  (Some e)), self, h1)
      | (Inr yc_file, h1) \<Rightarrow>
          (let self1 = self\<lparr>files := AList.update name (obj_id yc_file) (files self)\<rparr> in
           case index_file E yc_file self1 h1 of
             (Inl e, self2, h2) \<Rightarrow>
               (Inl (Exn RuntimeError (INDEX_ERR_1 @ name @ INDEX_ERR_2 @ parse_grpc_error e)
                       (Some e)), self2, h2)
           | (Inr u, self2, h2) \<Rightarrow> (Inr name, self2\<lparr>index_dirty := True\<rparr>, h2)))"

text \<open>\<open>self.sdk.files.get(fid).delete()\<close> inside \<open>try ... except Exception: pass\<close>:
  only the history changes.\<close>

definition delete_remote_file :: "env \<Rightarrow> pystr \<Rightarrow> call list \<Rightarrow> call list" where
  "delete_remote_file E fid h =
     (case call_obj E (FilesGet fid) h of
        (Inl e, h1) \<Rightarrow> h1
      | (Inr f, h1) \<Rightarrow> snd (call_none E (FileDelete f) h1))"

text \<open>\<open>remove_file\<close>: \<open>dict.pop(name, None)\<close>, then \<open>if fid:\<close>, which an empty
  identifier fails as well.\<close>

definition remove_file ::
  "env \<Rightarrow> pystr \<Rightarrow> yandex_rag \<Rightarrow> call list \<Rightarrow> (exn + unit) \<times> yandex_rag \<times> call list"
where
  "remove_file E source_name self h =
     (let fid = map_of (files self) source_name;
          self1 = self\<lparr>files := AList.delete source_name (files self)\<rparr>
      in case fid of
           None \<Rightarrow> (Inr (), self1, h)
         | Some i \<Rightarrow>
             if i \<noteq> [] then (Inr (), self1, delete_remote_file E i h)
             else (Inr (), self1, h))"

fun delete_remote_files :: "env \<Rightarrow> pystr list \<Rightarrow> call list \<Rightarrow> call list" where
  "delete_remote_files E [] h = h"
| "delete_remote_files E (fid # fids) h = delete_remote_files E fids (delete_remote_file E fid h)"

definition clear_all ::
  "env \<Rightarrow> yandex_rag \<Rightarrow> call list \<Rightarrow> (exn + unit) \<times> yandex_rag \<times> call list"
where
  "clear_all E self h =
     (let h1 = (case assistant self of
                  Some a \<Rightarrow> snd (call_none E (AssistantDelete a) h)
                | None \<Rightarrow> h);
          h2 = (case search_index self of
                  Some si \<Rightarrow> snd (call_none E (IndexDelete si) h1)
                | None \<Rightarrow> h1);
          h3 = delete_remote_files E (map snd (files self)) h2
      in (Inr (), self\<lparr>assistant := None, search_index := None, files := [],
                        index_dirty := True\<rparr>, h3))"

definition document_count :: "yandex_rag \<Rightarrow> nat" where
  "document_count self = length (files self)"

text \<open>The body of the \<open>try\<close> of \<open>YandexRAG.analyze\<close> (source lines 292 to 303).\<close>

definition run_thread :: "env \<Rightarrow> obj \<Rightarrow> pystr \<Rightarrow> call list \<Rightarrow> (exn + pystr) \<times> call list" where
  "run_thread E a query h =
     (case call_obj E ThreadsCreate h of
        (Inl e, h1) \<Rightarrow> (Inl e, h1)
      | (Inr thread, h1) \<Rightarrow>
          (case call_none E (ThreadWrite thread query) h1 of
             (Inl e, h2) \<Rightarrow> (Inl e, h2)
           | (Inr u, h2) \<Rightarrow>
               (case call_obj E (AssistantRun a thread) h2 of
                  (Inl e, h3) \<Rightarrow> (Inl e, h3)
                | (Inr run, h3) \<Rightarrow>
                    (case call_text E (RunWait run) h3 of
                       (Inl e, h4) \<Rightarrow> (Inl e, h4)
                     | (Inr result_text, h4) \<Rightarrow>
                         (let txt = (case result_text of None \<Rightarrow> [] | Some t \<Rightarrow> t);
                              h5 = snd (call_none E (ThreadDelete thread) h4)
                          in if strip txt \<noteq> [] then (Inr txt, h5)
                             else (Inr MSG_EMPTY_REPLY, h5))))))"

text \<open>\<open>YandexRAG.analyze\<close>: \<open>_ensure_assistant\<close> is called before the \<open>try\<close>.\<close>

definition yandex_analyze ::
  "env \<Rightarrow> pystr \<Rightarrow> yandex_rag \<Rightarrow> call list \<Rightarrow> (exn + pystr) \<times> yandex_rag \<times> call list"
where
  "yandex_analyze E query self h =
     (case ensure_assistant E self h of
        (Inl e, self1, h1) \<Rightarrow> (Inl e, self1, h1)
      | (Inr u, self1, h1) \<Rightarrow>
          (case assistant self1 of
             None \<Rightarrow> (Inr MSG_NO_ASSISTANT, self1, h1)
           | Some a \<Rightarrow>
               (case run_thread E a query h1 of
                  (Inl e, h2) \<Rightarrow> (Inr (MSG_ANALYZE_ERR @ parse_grpc_error e), self1, h2)
                | (Inr reply, h2) \<Rightarrow> (Inr reply, self1, h2))))"

section \<open>The orchestrator: \<open>RAGEngine\<close>\<close>

text \<open>A \<open>RAGEngine\<close> object: \<open>yandex\<close> is \<open>None\<close> when Yandex Cloud is not configured.\<close>

record rag_engine =
  model_name :: pystr
  yandex :: "yandex_rag option"

definition engine_document_count :: "rag_engine \<Rightarrow> nat" where
  "engine_document_count self = (case yandex self of Some y \<Rightarrow> document_count y | None \<Rightarrow> 0)"

text \<open>
  \<open>describe_image\<close>. The new width and height of a resized image are computed in
  floating point and only passed on to the image library, so the resize is a call whose
  arguments are left out.
\<close>

definition describe_image :: "env \<Rightarrow> pystr \<Rightarrow> call list \<Rightarrow> (exn + pystr) \<times> call list" where
  "describe_image E image_path h =
     (case call_obj E (ImageOpen image_path) h of
        (Inl e, h1) \<Rightarrow> (Inl e, h1)
      | (Inr img0, h1) \<Rightarrow>
          (case (if max (fst (image_size E img0)) (snd (image_size E img0)) > 2048
                 then call_obj E (ImageResize img0) h1 else (Inr img0, h1)) of
             (Inl e, h2) \<Rightarrow> (Inl e, h2)
           | (Inr img, h2) \<Rightarrow>
               (case retry_call E (call_obj E (GenerateContent img)) MAX_RETRIES
                       RETRY_BASE_DELAY h2 of
                  (Inl e, h3) \<Rightarrow> (Inl e, h3)
                | (Inr response, h3) \<Rightarrow> call_str E (ResponseText response) h3)))"

definition py_join :: "pystr \<Rightarrow> pystr list \<Rightarrow> pystr" where
  "py_join sep parts = (case parts of [] \<Rightarrow> [] | p # ps \<Rightarrow> p @ concat (map (\<lambda>q. sep @ q) ps))"

definition analyze_text ::
  "env \<Rightarrow> pystr \<Rightarrow> rag_engine \<Rightarrow> call list \<Rightarrow> (exn + pystr) \<times> rag_engine \<times> call list"
where
  "analyze_text E txt self h =
     (case yandex self of
        None \<Rightarrow> (Inr MSG_NOT_CONFIGURED, self, h)
      | Some y \<Rightarrow>
          (let query = QUERY_TEXT_HEAD @ [34, 34, 34, 10] @ txt @ [10, 34, 34, 34, 10, 10]
                        @ QUERY_COUNT @ str_nat (engine_document_count self) @ lit '']''
           in case yandex_analyze E query y h of
                (r, y1, h1) \<Rightarrow> (r, self\<lparr>yandex := Some y1\<rparr>, h1)))"

definition analyze_image ::
  "env \<Rightarrow> pystr \<Rightarrow> pystr \<Rightarrow> rag_engine \<Rightarrow> call list
   \<Rightarrow> (exn + pystr) \<times> rag_engine \<times> call list"
where
  "analyze_image E image_path txt self h =
     (case yandex self of
        None \<Rightarrow> (Inr MSG_NOT_CONFIGURED, self, h)
      | Some y \<Rightarrow>
          (case describe_image E image_path h of
             (Inl e, h1) \<Rightarrow> (Inr (MSG_DESCRIBE_ERR @ take 200 (msg e)), self, h1)
           | (Inr description, h1) \<Rightarrow>
               (let query_parts =
                      [QUERY_IMAGE_HEAD, [], QUERY_VISUAL, [34, 34, 34], description,
                       [34, 34, 34]]
                      @ (if strip txt \<noteq> [] then [[], QUERY_AD_TEXT, [34, 34, 34], txt,
                                                   [34, 34, 34]] else [])
                      @ [[10] @ QUERY_COUNT @ str_nat (engine_document_count self) @ lit '']'']
                in case yandex_analyze E (py_join [10] query_parts) y h1 of
                     (r, y1, h2) \<Rightarrow> (r, self\<lparr>yandex := Some y1\<rparr>, h2))))"

text \<open>\<open>RAGEngine.analyze\<close>: \<open>image_path\<close> is optional, and \<open>if image_path and ...\<close>
  also fails for the empty string, without asking the file system.\<close>

definition analyze ::
  "env \<Rightarrow> pystr \<Rightarrow> pystr option \<Rightarrow> rag_engine \<Rightarrow> call list
   \<Rightarrow> (exn + pystr) \<times> rag_engine \<times> call list"
where
  "analyze E txt image_path self h =
     (case image_path of
        Some p \<Rightarrow>
          if p \<noteq> [] \<and> isfile E p then analyze_image E p txt self h
          else if strip txt \<noteq> [] then analyze_text E txt self h
          else (Inr MSG_NOTHING, self, h)
      | None \<Rightarrow>
          if strip txt \<noteq> [] then analyze_text E txt self h
          else (Inr MSG_NOTHING, self, h))"

text \<open>The calls of the image description path.\<close>

fun is_vision_call :: "call \<Rightarrow> bool" where
  "is_vision_call (ImageOpen p) = True"
| "is_vision_call (ImageResize i) = True"
| "is_vision_call (GenerateContent i) = True"
| "is_vision_call (ResponseText r) = True"
| "is_vision_call (Sleep d) = True"
| "is_vision_call c = False"

text \<open>The history \<open>h'\<close> continues \<open>h\<close>, and every call added satisfies \<open>P\<close>.\<close>

definition only_appends :: "(call \<Rightarrow> bool) \<Rightarrow> call list \<Rightarrow> call list \<Rightarrow> bool" where
  "only_appends P h h' = (take (length h) h' = h \<and> list_all P (drop (length h) h'))"

section \<open>The plain text loader: \<open>_load_txt\<close>\<close>

type_synonym byte = "8 word"

datatype encoding = Utf8 | Cp1251 | Latin1

text \<open>
  The codecs \<open>utf-8\<close> and \<open>cp1251\<close> belong to the Python library; they are parameters
  of the model. A codec either decodes the bytes or fails with a \<open>UnicodeDecodeError\<close>,
  or is not installed, which \<open>open\<close> reports as a \<open>LookupError\<close>.
\<close>

datatype codec_failure = DecodeFailed | UnknownEncoding

record codecs =
  decode_utf8 :: "byte list \<Rightarrow> codec_failure + pystr"
  decode_cp1251 :: "byte list \<Rightarrow> codec_failure + pystr"

text \<open>\<open>latin-1\<close> maps each byte to the code point of the same value.\<close>

definition decode :: "codecs \<Rightarrow> encoding \<Rightarrow> byte list \<Rightarrow> codec_failure + pystr" where
  "decode C enc bs =
     (case enc of
        Utf8 \<Rightarrow> decode_utf8 C bs
      | Cp1251 \<Rightarrow> decode_cp1251 C bs
      | Latin1 \<Rightarrow> Inr (map unat bs))"

definition codec_exn :: "codec_failure \<Rightarrow> exn" where
  "codec_exn f =
     (case f of
        DecodeFailed \<Rightarrow> Exn UnicodeDecodeError (lit ''codec can not decode bytes'') None
      | UnknownEncoding \<Rightarrow> Exn LookupError (lit ''unknown encoding'') None)"

text \<open>A file opened in text mode translates \<open>\\r\\n\<close> and \<open>\\r\<close> to \<open>\\n\<close>.\<close>

fun universal_newlines :: "pystr \<Rightarrow> pystr" where
  "universal_newlines [] = []"
| "universal_newlines [c] = [if c = 13 then 10 else c]"
| "universal_newlines (c # d # r) =
     (if c = 13 \<and> d = 10 then 10 # universal_newlines r
      else if c = 13 then 10 # universal_newlines (d # r)
      else c # universal_newlines (d # r))"

text \<open>
  One \<open>with open(path, "r", encoding=enc) as f: return f.read()\<close>. The file system
  answers the \<open>i\<close>-th opening of the file with its bytes or with an operating system
  error (its message), which becomes an \<open>OSError\<close>.
\<close>

definition open_read :: "codecs \<Rightarrow> (nat \<Rightarrow> pystr + byte list) \<Rightarrow> nat \<Rightarrow> encoding \<Rightarrow> exn + pystr" where
  "open_read C file i enc =
     (case file i of
        Inl m \<Rightarrow> Inl (Exn OSError m None)
      | Inr bs \<Rightarrow>
          (case decode C enc bs of
             Inl f \<Rightarrow> Inl (codec_exn f)
           | Inr t \<Rightarrow> Inr (universal_newlines t)))"

text \<open>The loop over the encodings; \<open>except (UnicodeDecodeError, LookupError)\<close> lets
  every other exception pass.\<close>

fun load_txt_loop ::
  "codecs \<Rightarrow> (nat \<Rightarrow> pystr + byte list) \<Rightarrow> pystr \<Rightarrow> encoding list \<Rightarrow> nat \<Rightarrow> exn + pystr"
where
  "load_txt_loop C file path [] i = Inl (Exn ValueError (UNREADABLE_PREFIX @ path) None)"
| "load_txt_loop C file path (enc # rest) i =
     (case open_read C file i enc of
        Inr t \<Rightarrow> Inr t
      | Inl e \<Rightarrow>
          if kind e = UnicodeDecodeError \<or> kind e = LookupError
          then load_txt_loop C file path rest (i + 1)
          else Inl e)"

definition load_txt :: "codecs \<Rightarrow> (nat \<Rightarrow> pystr + byte list) \<Rightarrow> pystr \<Rightarrow> exn + pystr" where
  "load_txt C file path = load_txt_loop C file path [Utf8, Cp1251, Latin1] 0"

section \<open>Example environments and states\<close>

text \<open>An environment in which every call succeeds; only \<open>ad.png\<close> is a file.\<close>

definition env_ok :: env where
  "env_ok =
     \<lparr>returns_obj = (\<lambda>h. Inr (Obj (lit ''obj''))),
      returns_none = (\<lambda>h. None),
      returns_text = (\<lambda>h. Inr (Some (lit ''report''))),
      returns_str = (\<lambda>h. Inr (lit ''a poster'')),
      image_size = (\<lambda>i. (640, 480)),
      isfile = (\<lambda>p. p = lit ''ad.png''),
      path_name = (\<lambda>p. p),
      max_sleep = 9223372036\<rparr>"

text \<open>The same, but creating an assistant raises.\<close>

definition env_create_fails :: env where
  "env_create_fails =
     env_ok\<lparr>returns_obj :=
       (\<lambda>h. case last h of
               AssistantsCreate tools \<Rightarrow> Inl (Exn RemoteError (lit ''UNAVAILABLE'') None)
             | _ \<Rightarrow> Inr (Obj (lit ''obj'')))\<rparr>"

text \<open>The same, but waiting for an index operation raises.\<close>

definition env_index_fails :: env where
  "env_index_fails =
     env_ok\<lparr>returns_obj :=
       (\<lambda>h. case last h of
               OpWait op \<Rightarrow> Inl (Exn RemoteError (lit ''INVALID_ARGUMENT'') None)
             | _ \<Rightarrow> Inr (Obj (lit ''file-7'')))\<rparr>"

text \<open>The same, but opening an image raises.\<close>

definition env_image_fails :: env where
  "env_image_fails =
     env_ok\<lparr>returns_obj :=
       (\<lambda>h. case last h of
               ImageOpen p \<Rightarrow> Inl (Exn OSError (lit ''cannot identify image file'') None)
             | _ \<Rightarrow> Inr (Obj (lit ''obj'')))\<rparr>"

text \<open>A \<open>YandexRAG\<close> object as \<open>__init__\<close> leaves it when no index exists remotely, and
  one with a file, an index and an up-to-date assistant, as \<open>_ensure_assistant\<close> leaves
  it.\<close>

definition fresh_yandex :: yandex_rag where
  "fresh_yandex = \<lparr>search_index = None, files = [], assistant = None, index_dirty = True\<rparr>"

definition settled_yandex :: yandex_rag where
  "settled_yandex =
     \<lparr>search_index = Some (Obj (lit ''index'')), files = [(lit ''law.txt'', lit ''file-1'')],
      assistant = Some (Obj (lit ''assistant'')), index_dirty = False\<rparr>"

definition fresh_engine :: rag_engine where
  "fresh_engine = \<lparr>model_name = lit ''gemini-2.0-flash'', yandex = Some fresh_yandex\<rparr>"

text \<open>Codecs that reject every input.\<close>

definition codecs_rejecting :: codecs where
  "codecs_rejecting =
     \<lparr>decode_utf8 = (\<lambda>bs. Inl DecodeFailed), decode_cp1251 = (\<lambda>bs. Inl UnknownEncoding)\<rparr>"

section \<open>Properties of the chunker\<close>

subsection \<open>Substrings, slices and trimming\<close>

lemma rfind_cases:
  "rfind s sub = - 1 \<or> (0 \<le> rfind s sub \<and> rfind s sub + int (length sub) \<le> int (length s))"
proof (cases "filter (is_at sub s) (rev [0..<Suc (length s)])")
  case Nil
  then show ?thesis by (simp add: rfind_def)
next
  case (Cons i rest)
  then have "i \<in> set (filter (is_at sub s) (rev [0..<Suc (length s)]))" by simp
  then have at: "is_at sub s i" and le: "i \<le> length s" by (auto simp del: upt_Suc)
  from at have "length (take (length sub) (drop i s)) = length sub"
    by (simp add: is_at_def)
  then have "length sub \<le> length s - i" by simp
  with le have "i + length sub \<le> length s" by simp
  moreover have "rfind s sub = int i" using Cons by (simp add: rfind_def)
  ultimately show ?thesis by simp
qed

lemma is_at_iff:
  "(is_at sub s i \<and> i \<le> length s) = (\<exists>pre post. s = pre @ sub @ post \<and> length pre = i)"
proof
  assume h: "is_at sub s i \<and> i \<le> length s"
  have "s = take i s @ drop i s" by simp
  also have "drop i s = take (length sub) (drop i s) @ drop (length sub) (drop i s)"
    by (simp only: append_take_drop_id)
  also have "take (length sub) (drop i s) = sub" using h by (simp add: is_at_def)
  finally have "s = take i s @ sub @ drop (length sub) (drop i s)" .
  moreover have "length (take i s) = i" using h by simp
  ultimately show "\<exists>pre post. s = pre @ sub @ post \<and> length pre = i" by blast
next
  assume "\<exists>pre post. s = pre @ sub @ post \<and> length pre = i"
  then show "is_at sub s i \<and> i \<le> length s" by (auto simp: is_at_def)
qed

lemma py_in_iff: "py_in sub s = (\<exists>pre post. s = pre @ sub @ post)"
proof -
  have "py_in sub s = (\<exists>i. is_at sub s i \<and> i \<le> length s)"
    by (auto simp: py_in_def list_ex_iff simp del: upt_Suc)
  then show ?thesis by (simp add: is_at_iff)
qed

lemma py_in_subset: "py_in sub s \<Longrightarrow> set sub \<subseteq> set s"
  by (auto simp: py_in_iff)

lemma rfind_none: "\<not> py_in sub s \<Longrightarrow> rfind s sub = - 1"
proof -
  assume "\<not> py_in sub s"
  then have "filter (is_at sub s) (rev [0..<Suc (length s)]) = []"
    by (auto simp: py_in_def list_ex_iff filter_empty_conv simp del: upt_Suc)
  then show ?thesis by (simp add: rfind_def)
qed

lemma py_in_slice: "py_in sub (py_slice s a b) \<Longrightarrow> py_in sub s"
proof -
  assume "py_in sub (py_slice s a b)"
  then obtain n lo pre post where "take n (drop lo s) = pre @ sub @ post"
    unfolding py_in_iff py_slice_def Let_def by blast
  moreover have "s = take lo s @ take n (drop lo s) @ drop n (drop lo s)"
    by (simp only: append_take_drop_id)
  ultimately have "s = (take lo s @ pre) @ sub @ (post @ drop n (drop lo s))" by simp
  then show ?thesis unfolding py_in_iff by blast
qed

lemma strip_nonempty: "(strip s \<noteq> []) = (\<exists>c \<in> set s. \<not> isspace c)"
proof
  assume "strip s \<noteq> []"
  then obtain c where "c \<in> set (dropWhile isspace s)" "\<not> isspace c"
    by (auto simp: strip_def dropWhile_eq_Nil_conv)
  then show "\<exists>c \<in> set s. \<not> isspace c" using set_dropWhileD by fastforce
next
  assume "\<exists>c \<in> set s. \<not> isspace c"
  then have ne: "dropWhile isspace s \<noteq> []" by (simp add: dropWhile_eq_Nil_conv)
  then have "\<not> isspace (hd (dropWhile isspace s))" by (rule hd_dropWhile)
  moreover have "hd (dropWhile isspace s) \<in> set (dropWhile isspace s)" using ne by simp
  ultimately show "strip s \<noteq> []" by (auto simp: strip_def dropWhile_eq_Nil_conv)
qed

lemma strip_id: "\<forall>c \<in> set s. \<not> isspace c \<Longrightarrow> strip s = s"
proof -
  assume a: "\<forall>c \<in> set s. \<not> isspace c"
  have d: "dropWhile isspace xs = xs" if "\<forall>c \<in> set xs. \<not> isspace c" for xs
    using that by (cases xs) auto
  show ?thesis using a by (simp add: strip_def d)
qed

subsection \<open>Boundary snapping\<close>

lemma snap_length:
  "snap cs ct ss = Some r \<Longrightarrow> 2 * cs < 5 * int (length r)"
proof (induction ss)
  case Nil
  then show ?case by simp
next
  case (Cons sep rest)
  show ?case
  proof (cases "5 * rfind ct sep > 2 * cs")
    case True
    with Cons.prems have r: "r = py_slice ct 0 (rfind ct sep + int (length sep))"
      by (simp add: Let_def)
    from rfind_cases [of ct sep] show ?thesis
    proof
      assume "rfind ct sep = - 1"
      with True show ?thesis by simp
    next
      assume b: "0 \<le> rfind ct sep \<and> rfind ct sep + int (length sep) \<le> int (length ct)"
      then have "nat (rfind ct sep + int (length sep)) \<le> length ct" by linarith
      with b have "length r = nat (rfind ct sep + int (length sep))"
        unfolding r py_slice_def clamp_index_def by (simp add: Let_def)
      with b True show ?thesis by simp
    qed
  next
    case False
    with Cons show ?thesis by (simp add: Let_def)
  qed
qed

lemma snap_some:
  "snap cs ct ss = Some r \<Longrightarrow>
   \<exists>sep \<in> set ss. 2 * cs < 5 * rfind ct sep \<and> r = py_slice ct 0 (rfind ct sep + int (length sep))"
  by (induction ss) (auto simp: Let_def split: if_splits)

lemma snap_none:
  "list_all (\<lambda>sep. \<not> py_in sep ct) ss \<Longrightarrow> 0 \<le> cs \<Longrightarrow> snap cs ct ss = None"
  by (induction ss) (simp_all add: rfind_none)

lemma window_cases:
  assumes "window cs s start = (ct, e)"
  shows "ct = py_slice s start (min (start + cs) (int (length s))) \<or>
         snap cs (py_slice s start (min (start + cs) (int (length s)))) seps = Some ct"
  using assms by (auto simp: window_def Let_def split: if_splits option.splits)

lemma window_plain:
  assumes "no_boundary s" "0 \<le> cs"
  shows "window cs s start =
         (py_slice s start (min (start + cs) (int (length s))), min (start + cs) (int (length s)))"
proof -
  have "list_all (\<lambda>sep. \<not> py_in sep (py_slice s start (min (start + cs) (int (length s))))) seps"
    using assms(1) py_in_slice unfolding no_boundary_def list_all_iff by blast
  then have "snap cs (py_slice s start (min (start + cs) (int (length s)))) seps = None"
    using assms(2) by (rule snap_none)
  then show ?thesis unfolding window_def Let_def by (simp only: option.case if_cancel)
qed

lemma window_example: "window 5 [97,97,97,10,97,97,97] 0 = ([97,97,97,10], 4)"
  by code_simp

lemma strip_example: "strip [97,97,97,10] = [97,97,97]"
  by code_simp

text \<open>
  Claim C8. Whenever the window of an iteration differs from the plain slice of
  \<open>chunk_size\<close> characters, that is, whenever snapping shortened it, the chunk text
  (before trimming) is longer than 40 percent of \<open>chunk_size\<close>, and a separator was
  found at a position beyond that threshold.
\<close>

theorem snapped_window_above_40_percent:
  assumes "window chunk_size txt start = (chunk_text, e)"
    and "chunk_text \<noteq> py_slice txt start (min (start + chunk_size) (int (length txt)))"
  shows "2 * chunk_size < 5 * int (length chunk_text) \<and>
         list_ex (\<lambda>sep. 2 * chunk_size <
                          5 * rfind (py_slice txt start (min (start + chunk_size) (int (length txt)))) sep)
                 seps"
proof -
  from window_cases [OF assms(1)] assms(2)
  have sn: "snap chunk_size (py_slice txt start (min (start + chunk_size) (int (length txt)))) seps
            = Some chunk_text" by blast
  from snap_length [OF sn] snap_some [OF sn] show ?thesis
    unfolding list_ex_iff by blast
qed

text \<open>
  Claim C8 at the window of \<open>"aaa\\naaa"\<close> with \<open>chunk_size = 5\<close>: it is cut to four
  characters, and \<open>2 * 5 < 5 * 4\<close>.
\<close>

theorem snapped_window_above_40_percent_witness:
  "window 5 [97,97,97,10,97,97,97] 0 = ([97,97,97,10], 4) \<and>
   [97,97,97,10] \<noteq> py_slice [97,97,97,10,97,97,97] 0 (min (0 + 5) (int (length [97,97,97,10,97,97,97::nat]))) \<and>
   2 * 5 < 5 * int (length [97,97,97,10::nat])"
proof -
  have 2: "[97,97,97,10] \<noteq> py_slice [97,97,97,10,97,97,97] 0 (min (0 + 5) (int (length [97,97,97,10,97,97,97::nat])))"
    by (simp add: py_slice_def clamp_index_def)
  from snapped_window_above_40_percent [OF window_example 2] show ?thesis using window_example 2 by simp
qed

subsection \<open>A text of 2500 characters without boundary markers\<close>

lemma three_windows:
  assumes len: "length s = 2500" and nb: "no_boundary s"
    and c1: "strip (py_slice s 0 1000) \<noteq> []"
    and c2: "strip (py_slice s 800 1800) \<noteq> []"
    and c3: "strip (py_slice s 1600 2500) \<noteq> []"
  shows "split_loop 1000 200 src s 0 0 [] =
         Some [mk_chunk src 0 (strip (py_slice s 0 1000)),
               mk_chunk src 1 (strip (py_slice s 800 1800)),
               mk_chunk src 2 (strip (py_slice s 1600 2500))]"
proof -
  have w: "\<And>start. window 1000 s start = (py_slice s start (min (start + 1000) 2500), min (start + 1000) 2500)"
    using window_plain [OF nb, of 1000] len by simp
  have 3: "split_loop 1000 200 src s 1600 k cks =
           Some (cks @ [mk_chunk src k (strip (py_slice s 1600 2500))])" for cks k
    by (subst split_loop.simps) (simp add: w len c3 Let_def)
  have 2: "split_loop 1000 200 src s 800 k cks =
           Some (cks @ [mk_chunk src k (strip (py_slice s 800 1800)),
                        mk_chunk src (Suc k) (strip (py_slice s 1600 2500))])" for cks k
    by (subst split_loop.simps) (simp add: w len c2 Let_def 3)
  show ?thesis
    by (subst split_loop.simps) (simp add: w len c1 Let_def 2 numeral_2_eq_2)
qed

lemma no_boundary_replicate: "no_boundary (replicate n 97)"
proof -
  have "\<not> py_in sep (replicate n 97)" if h: "10 \<in> set sep \<or> 32 \<in> set sep" for sep
  proof
    assume "py_in sep (replicate n 97)"
    then have "set sep \<subseteq> set (replicate n 97)" by (rule py_in_subset)
    then have "\<forall>x \<in> set sep. x = 97" by auto
    with h show False by auto
  qed
  then show ?thesis by (simp add: no_boundary_def seps_def)
qed

lemma isspace_97: "\<not> isspace 97"
  by (simp add: isspace_def)

lemma strip_replicate: "strip (replicate n 97) = replicate n 97"
  by (rule strip_id) (simp add: isspace_97)

lemma slices_replicate:
  "py_slice (replicate 2500 (97::nat)) 0 1000 = replicate 1000 97"
  "py_slice (replicate 2500 (97::nat)) 800 1800 = replicate 1000 97"
  "py_slice (replicate 2500 (97::nat)) 1600 2500 = replicate 900 97"
  by (simp_all add: py_slice_def clamp_index_def)

text \<open>
  Claim C1, amended. A text of exactly 2500 characters without boundary markers that
  neither begins nor ends with whitespace, and whose characters 800 to 1799 are not all
  whitespace, yields exactly three chunks under \<open>chunk_size = 1000\<close> and
  \<open>chunk_overlap = 200\<close>: the trimmed windows that start at the offsets 0, 800 and
  1600. The window from 1600 reaches the end of the text, so the loop stops there and no
  window starts at 2400.
\<close>

theorem text_2500_gives_three_chunks:
  assumes "length txt = 2500" and "no_boundary txt"
    and "\<not> isspace (hd txt)" and "\<not> isspace (last txt)"
    and "strip (py_slice txt 800 1800) \<noteq> []"
  shows "split_into_chunks 1000 200 txt src =
         Some [mk_chunk src 0 (strip (py_slice txt 0 1000)),
               mk_chunk src 1 (strip (py_slice txt 800 1800)),
               mk_chunk src 2 (strip (py_slice txt 1600 2500))]"
proof -
  from assms(1) have ne: "txt \<noteq> []" by auto
  have "dropWhile isspace txt = txt" using assms(3) by (simp add: dropWhile_eq_self_iff)
  moreover have "dropWhile isspace (rev txt) = rev txt"
    using assms(4) ne by (simp add: dropWhile_eq_self_iff hd_rev)
  ultimately have st: "strip txt = txt" by (simp add: strip_def)
  have "hd txt \<in> set (py_slice txt 0 1000)"
    using assms(1) ne by (cases "txt") (simp_all add: py_slice_def clamp_index_def)
  with assms(3) have c1: "strip (py_slice txt 0 1000) \<noteq> []"
    unfolding strip_nonempty by blast
  have "py_slice txt 1600 2500 = drop 1600 txt"
    using assms(1) by (simp add: py_slice_def clamp_index_def)
  moreover have "last (drop 1600 txt) = last txt" "drop 1600 txt \<noteq> []"
    using assms(1) by simp_all
  ultimately have "last txt \<in> set (py_slice txt 1600 2500)"
    by (metis last_in_set)
  with assms(4) have c3: "strip (py_slice txt 1600 2500) \<noteq> []"
    unfolding strip_nonempty by blast
  show ?thesis
    using three_windows [OF assms(1) assms(2) c1 assms(5) c3, of src] ne
    by (simp add: split_into_chunks_def st)
qed

text \<open>
  The amended claim C1 at the text of 2500 letters \<open>a\<close>.
\<close>

theorem text_2500_gives_three_chunks_witness:
  "length (replicate 2500 (97::nat)) = 2500 \<and> no_boundary (replicate 2500 97) \<and>
   \<not> isspace (hd (replicate 2500 97)) \<and> \<not> isspace (last (replicate 2500 97)) \<and>
   strip (py_slice (replicate 2500 97) 800 1800) \<noteq> [] \<and>
   split_into_chunks 1000 200 (replicate 2500 97) [] =
     Some [mk_chunk [] 0 (strip (py_slice (replicate 2500 97) 0 1000)),
           mk_chunk [] 1 (strip (py_slice (replicate 2500 97) 800 1800)),
           mk_chunk [] 2 (strip (py_slice (replicate 2500 97) 1600 2500))]"
proof -
  have 1: "length (replicate 2500 (97::nat)) = 2500" by simp
  have 3: "\<not> isspace (hd (replicate 2500 97))" by (simp add: isspace_97)
  have 4: "\<not> isspace (last (replicate 2500 97))" by (simp add: isspace_97)
  have 5: "strip (py_slice (replicate 2500 97) 800 1800) \<noteq> []"
    by (simp add: slices_replicate strip_replicate)
  from text_2500_gives_three_chunks [OF 1 no_boundary_replicate 3 4 5, of "[]"]
  show ?thesis using 1 3 4 5 no_boundary_replicate by blast
qed

text \<open>
  Claim C1 as stated fails: the text of 2500 letters \<open>a\<close> has no boundary marker
  and gives three chunks, of 1000, 1000 and 900 characters, not four.
\<close>

theorem four_chunks_counterexample:
  "length (replicate 2500 (97::nat)) = 2500 \<and> no_boundary (replicate 2500 97) \<and>
   split_into_chunks 1000 200 (replicate 2500 97) [] =
     Some [mk_chunk [] 0 (replicate 1000 97), mk_chunk [] 1 (replicate 1000 97),
           mk_chunk [] 2 (replicate 900 97)]"
proof -
  have st: "strip (replicate 2500 97) = replicate 2500 97" by (rule strip_replicate)
  have "split_loop 1000 200 [] (replicate 2500 97) 0 0 [] =
        Some [mk_chunk [] 0 (replicate 1000 97), mk_chunk [] 1 (replicate 1000 97),
              mk_chunk [] 2 (replicate 900 97)]"
    using three_windows [of "replicate 2500 97" "[]"] no_boundary_replicate
    by (simp add: slices_replicate strip_replicate)
  then show ?thesis
    using no_boundary_replicate by (simp add: split_into_chunks_def st)
qed

subsection \<open>Termination\<close>

lemma loop_at_start_never_returns:
  assumes ret: "split_loop cs ov src t start cid chunks = Some y"
  shows "\<not> (cs = 5 \<and> ov = 4 \<and> t = [97,97,97,10,97,97,97] \<and> start = 0)"
proof (rule split_loop.raw_induct
    [where P = "\<lambda>cs ov src t start cid chunks y.
                  \<not> (cs = 5 \<and> ov = 4 \<and> t = [97,97,97,10,97,97,97] \<and> start = 0)",
     OF _ ret], goal_cases)
  case (1 f cs ov src t start cid chunks y)
  show ?case
  proof
    assume h: "cs = 5 \<and> ov = 4 \<and> t = [97,97,97,10,97,97,97] \<and> start = 0"
    with 1(2) have "f 5 4 src [97,97,97,10,97,97,97] 0 (cid + 1)
                      (chunks @ [mk_chunk src cid [97,97,97]]) = Some y"
      by (simp add: window_example strip_example Let_def)
    from 1(1) [OF this] show False by simp
  qed
qed

text \<open>
  Claim C4 (termination whenever the overlap is below the chunk size) fails on the code.
  With \<open>chunk_size = 5\<close> and \<open>chunk_overlap = 4\<close>, on the seven characters
  \<open>"aaa\\naaa"\<close> the first window is cut after the newline, so \<open>end = 4\<close> and the
  next start is \<open>4 - 4 = 0\<close> again: the loop repeats the same iteration for ever.
\<close>

theorem split_into_chunks_diverges:
  "split_into_chunks 5 4 [97,97,97,10,97,97,97] src = None"
proof -
  have st: "strip [97,97,97,10,97,97,97] = [97,97,97,10,97,97,97]" by code_simp
  have "split_loop 5 4 src [97,97,97,10,97,97,97] 0 0 [] = None"
    using loop_at_start_never_returns [of 5 4 src "[97,97,97,10,97,97,97]" 0 0 "[]"]
    by (cases "split_loop 5 4 src [97,97,97,10,97,97,97] 0 0 []") auto
  then show ?thesis by (simp add: split_into_chunks_def st)
qed

lemma window_progress:
  assumes "0 < cs" and "5 * ov \<le> 2 * cs" and "window cs t start = (ct, e)"
  shows "e = int (length t) \<or> start < e - ov"
proof (cases "min (start + cs) (int (length t)) < int (length t)")
  case False
  with assms(3) show ?thesis by (auto simp: window_def Let_def)
next
  case True
  then have m: "min (start + cs) (int (length t)) = start + cs" by simp
  show ?thesis
  proof (cases "snap cs (py_slice t start (start + cs)) seps")
    case None
    with assms(3) True m have "e = start + cs"
      by (simp add: window_def Let_def)
    with assms(1,2) show ?thesis by simp
  next
    case (Some r)
    with assms(3) True m have "e = start + int (length r)"
      by (auto simp: window_def Let_def)
    with snap_length [OF Some] assms(2) show ?thesis by simp
  qed
qed

lemma split_loop_returns:
  assumes "0 < cs" and "5 * ov \<le> 2 * cs"
  shows "\<exists>r. split_loop cs ov src t start cid chunks = Some r"
proof (induction "nat (int (length t) - start)" arbitrary: start cid chunks rule: less_induct)
  case less
  show ?case
  proof (cases "start < int (length t)")
    case False
    then show ?thesis by (subst split_loop.simps) simp
  next
    case True
    obtain ct e where w: "window cs t start = (ct, e)" by (cases "window cs t start")
    show ?thesis
    proof (cases "int (length t) \<le> e - ov \<or> e = int (length t)")
      case stop: True
      then show ?thesis using True w by (subst split_loop.simps) (auto simp: Let_def)
    next
      case go: False
      with window_progress [OF assms w] have adv: "start < e - ov" by simp
      with go True have "nat (int (length t) - (e - ov)) < nat (int (length t) - start)" by simp
      from less [OF this]
      have "\<exists>r. split_loop cs ov src t (e - ov) cid' chunks' = Some r" for cid' chunks' .
      then show ?thesis using True w go by (subst split_loop.simps) (simp add: Let_def)
    qed
  qed
qed

text \<open>
  The loop does return when the chunk size is positive and the overlap is at most 40
  percent of it, as for the defaults 1000 and 200: every window then ends beyond the
  overlap, so each iteration starts later than the one before.
\<close>

theorem split_into_chunks_returns_for_small_overlap:
  assumes "0 < chunk_size" and "5 * chunk_overlap \<le> 2 * chunk_size"
  shows "\<exists>chunks. split_into_chunks chunk_size chunk_overlap t src = Some chunks"
  using split_loop_returns [OF assms] by (simp add: split_into_chunks_def Let_def)

text \<open>The defaults satisfy the condition.\<close>

theorem split_into_chunks_returns_for_small_overlap_witness:
  "(0::int) < 1000 \<and> (5::int) * 200 \<le> 2 * 1000 \<and>
   split_into_chunks 1000 200 (replicate 2500 97) [] \<noteq> None"
proof -
  have a: "(0::int) < 1000" and b: "(5::int) * 200 \<le> 2 * 1000" by simp_all
  from split_into_chunks_returns_for_small_overlap [OF a b, of "replicate 2500 97" "[]"]
  show ?thesis by auto
qed

section \<open>Properties of the retry wrapper\<close>

lemma retry_loop_backoff:
  assumes "\<forall>i<k. \<exists>e. outcomes (c + i) = Inl e \<and> is_rate_limit e"
    and "outcomes (c + k) = Inr v"
    and "a + int k \<le> max_retries" and "0 \<le> a" and "0 \<le> base_delay"
    and "\<forall>i<k. base_delay * 2 ^ (nat a + i) \<le> max_sleep E"
    and "count_list h Invoke = c"
  shows "retry_loop E (scripted outcomes) max_retries base_delay a last_err h =
         (Inr v, h @ concat (map (\<lambda>i. [Invoke, Sleep (base_delay * 2 ^ (nat a + i))]) [0..<k])
                   @ [Invoke])"
  using assms
proof (induction k arbitrary: a c h last_err)
  case 0
  then show ?case
    by (subst retry_loop.simps) (simp add: scripted_def)
next
  case (Suc k)
  from Suc.prems(1) obtain e where e: "outcomes c = Inl e" "is_rate_limit e"
    by (metis add.right_neutral zero_less_Suc)
  let ?h2 = "h @ [Invoke, Sleep (base_delay * 2 ^ nat a)]"
  have d: "\<not> base_delay * 2 ^ nat a < 0"
    using Suc.prems(5) by (simp add: not_less zero_le_mult_iff)
  have u: "\<not> max_sleep E < base_delay * 2 ^ nat a"
    using Suc.prems(6) by (metis add.right_neutral not_less zero_less_Suc)
  have step: "retry_loop E (scripted outcomes) max_retries base_delay a last_err h =
              retry_loop E (scripted outcomes) max_retries base_delay (a + 1) (Some e) ?h2"
    using Suc.prems(3,7) e d u
    by (subst retry_loop.simps) (simp add: scripted_def time_sleep_def)
  have n: "nat (a + 1) + i = nat a + Suc i" for i using Suc.prems(4) by simp
  have 1: "\<forall>i<k. \<exists>e. outcomes (Suc c + i) = Inl e \<and> is_rate_limit e"
    using Suc.prems(1) by (metis Suc_less_eq add_Suc_shift)
  have 2: "outcomes (Suc c + k) = Inr v" using Suc.prems(2) by simp
  have 3: "a + 1 + int k \<le> max_retries" using Suc.prems(3) by simp
  have 4: "0 \<le> a + 1" using Suc.prems(4) by simp
  have 6: "\<forall>i<k. base_delay * 2 ^ (nat (a + 1) + i) \<le> max_sleep E"
    unfolding n using Suc.prems(6) by (metis Suc_less_eq)
  have 7: "count_list ?h2 Invoke = Suc c" using Suc.prems(7) by simp
  have m: "map (\<lambda>i. [Invoke, Sleep (base_delay * 2 ^ (nat a + i))]) [0..<Suc k] =
           [Invoke, Sleep (base_delay * 2 ^ nat a)] #
           map (\<lambda>i. [Invoke, Sleep (base_delay * 2 ^ (nat a + Suc i))]) [0..<k]"
    by (simp only: upt_conv_Cons [OF zero_less_Suc] map_Suc_upt [symmetric] list.map map_map o_def)
       simp
  show ?case
    unfolding step Suc.IH [OF 1 2 3 4 Suc.prems(5) 6 7] n m by simp
qed

lemma retry_loop_first_failure:
  assumes "outcomes (count_list h Invoke) = Inl e" and "\<not> is_rate_limit e"
    and "0 \<le> max_retries"
  shows "retry_loop E (scripted outcomes) max_retries base_delay 0 last_err h =
         (Inl e, h @ [Invoke])"
  using assms by (subst retry_loop.simps) (simp add: scripted_def)

text \<open>
  Claim C5. The arguments are taken in their range: \<open>max_retries\<close> is a retry count
  (not negative) and every delay is one that \<open>time.sleep\<close> accepts (\<open>base_delay\<close> not
  negative, no delay beyond the platform's limit). An operation that raises a rate-limit
  error on its first \<open>k\<close> invocations and then returns \<open>v\<close>, retried with
  \<open>max_retries \<ge> k\<close>, returns \<open>v\<close> after the sleeps \<open>base_delay * 2^0\<close>, ...,
  \<open>base_delay * 2^(k-1)\<close>, one after each failed invocation. An operation whose first
  invocation raises an error that is not a rate-limit error is invoked exactly once, no
  sleep happens, and that error is raised again.
\<close>

theorem retry_call_backoff_and_single_attempt:
  "((\<forall>i<k. \<exists>e. outcomes (count_list h Invoke + i) = Inl e \<and> is_rate_limit e) \<and>
    outcomes (count_list h Invoke + k) = Inr v \<and> int k \<le> max_retries \<and> 0 \<le> base_delay \<and>
    (\<forall>i<k. base_delay * 2 ^ i \<le> max_sleep E)
    \<longrightarrow> retry_call E (scripted outcomes) max_retries base_delay h =
          (Inr v, h @ backoff_trace base_delay k @ [Invoke])) \<and>
   (outcomes (count_list h Invoke) = Inl e' \<and> \<not> is_rate_limit e' \<and> 0 \<le> max_retries
    \<longrightarrow> retry_call E (scripted outcomes) max_retries base_delay h = (Inl e', h @ [Invoke]))"
proof (intro conjI impI)
  assume h: "(\<forall>i<k. \<exists>e. outcomes (count_list h Invoke + i) = Inl e \<and> is_rate_limit e) \<and>
    outcomes (count_list h Invoke + k) = Inr v \<and> int k \<le> max_retries \<and> 0 \<le> base_delay \<and>
    (\<forall>i<k. base_delay * 2 ^ i \<le> max_sleep E)"
  then have "retry_loop E (scripted outcomes) max_retries base_delay 0 None h =
         (Inr v, h @ concat (map (\<lambda>i. [Invoke, Sleep (base_delay * 2 ^ (nat 0 + i))]) [0..<k])
                   @ [Invoke])"
    by (intro retry_loop_backoff) simp_all
  then show "retry_call E (scripted outcomes) max_retries base_delay h =
          (Inr v, h @ backoff_trace base_delay k @ [Invoke])"
    by (simp add: retry_call_def backoff_trace_def)
next
  assume "outcomes (count_list h Invoke) = Inl e' \<and> \<not> is_rate_limit e' \<and> 0 \<le> max_retries"
  then show "retry_call E (scripted outcomes) max_retries base_delay h = (Inl e', h @ [Invoke])"
    unfolding retry_call_def by (intro retry_loop_first_failure) simp_all
qed

lemma rate_429: "is_rate_limit (Exn RemoteError (lit ''429 Too Many Requests'') None)"
  by code_simp

lemma not_rate_boom: "\<not> is_rate_limit (Exn RemoteError (lit ''boom'') None)"
  by code_simp

lemma backoff_trace_example: "backoff_trace 5 2 = [Invoke, Sleep 5, Invoke, Sleep 10]"
  by code_simp

text \<open>
  Claim C5 with the defaults of \<open>app/config.py\<close> (three retries, five seconds), at an
  operation that is rate-limited twice and then returns 7 (sleeps of 5 and 10 seconds),
  and at an operation that fails with another error.
\<close>

theorem retry_call_backoff_and_single_attempt_witness:
  "retry_call env_ok
     (scripted (\<lambda>i. if i < 2 then Inl (Exn RemoteError (lit ''429 Too Many Requests'') None)
                     else Inr (7::nat))) 3 5 [] =
     (Inr 7, [Invoke, Sleep 5, Invoke, Sleep 10, Invoke]) \<and>
   retry_call env_ok (scripted (\<lambda>i. Inl (Exn RemoteError (lit ''boom'') None) :: exn + nat)) 3 5 [] =
     (Inl (Exn RemoteError (lit ''boom'') None), [Invoke])"
proof -
  let ?o1 = "\<lambda>i::nat. if i < 2 then Inl (Exn RemoteError (lit ''429 Too Many Requests'') None)
                              else (Inr (7::nat) :: exn + nat)"
  let ?o2 = "\<lambda>i::nat. Inl (Exn RemoteError (lit ''boom'') None) :: exn + nat"
  have lim: "\<forall>i<2. (5::int) * 2 ^ i \<le> max_sleep env_ok"
  proof (intro allI impI)
    fix i :: nat assume "i < 2"
    then have "i = 0 \<or> i = 1" by auto
    then show "(5::int) * 2 ^ i \<le> max_sleep env_ok" by (auto simp: env_ok_def)
  qed
  have h1: "(\<forall>i<2. \<exists>e. ?o1 (count_list [] Invoke + i) = Inl e \<and> is_rate_limit e) \<and>
        ?o1 (count_list [] Invoke + 2) = Inr 7 \<and> int 2 \<le> 3 \<and> (0::int) \<le> 5 \<and>
        (\<forall>i<2. (5::int) * 2 ^ i \<le> max_sleep env_ok)"
    using rate_429 lim by simp
  have h2: "?o2 (count_list [] Invoke) = Inl (Exn RemoteError (lit ''boom'') None) \<and>
        \<not> is_rate_limit (Exn RemoteError (lit ''boom'') None) \<and> (0::int) \<le> 3"
    using not_rate_boom by simp
  from retry_call_backoff_and_single_attempt [of 2 ?o1 "[]" 7 3 5 env_ok, THEN conjunct1,
         rule_format, OF h1]
       retry_call_backoff_and_single_attempt [of _ ?o2 "[]" _ 3 5 env_ok, THEN conjunct2,
         rule_format, OF h2]
  show ?thesis by (simp add: backoff_trace_example)
qed

section \<open>Properties of the knowledge index manager\<close>

lemma index_file_failure_keeps_state:
  "index_file E f self h = (Inl e, self', h') \<Longrightarrow> self' = self"
  by (auto simp: index_file_def split: option.splits prod.splits sum.splits)

lemma add_file_success_dirty:
  "add_file E p self h = (Inr name, self', h') \<Longrightarrow> index_dirty self'"
  by (auto simp: add_file_def Let_def split: prod.splits sum.splits)

text \<open>
  Claim C2, amended. After a successful \<open>add_file\<close> the dirty flag is set, and
  \<open>clear_all\<close> always succeeds and sets it. \<open>remove_file\<close> always succeeds too, but it
  touches neither the flag nor the index nor the assistant: the flag is set afterwards
  only if it was set before.
\<close>

theorem dirty_after_add_and_clear:
  "(add_file E file_path self h = (Inr name, self', h') \<longrightarrow> index_dirty self') \<and>
   fst (clear_all E self h) = Inr () \<and> index_dirty (fst (snd (clear_all E self h))) \<and>
   fst (remove_file E source_name self h) = Inr () \<and>
   index_dirty (fst (snd (remove_file E source_name self h))) = index_dirty self \<and>
   search_index (fst (snd (remove_file E source_name self h))) = search_index self \<and>
   assistant (fst (snd (remove_file E source_name self h))) = assistant self"
  by (auto simp: add_file_success_dirty clear_all_def remove_file_def Let_def split: option.splits)

lemma add_ok:
  "add_file env_ok (lit ''ad.txt'') settled_yandex [] =
     (Inr (lit ''ad.txt''),
      \<lparr>search_index = Some (Obj (lit ''index'')),
       files = [(lit ''law.txt'', lit ''file-1''), (lit ''ad.txt'', lit ''obj'')],
       assistant = Some (Obj (lit ''assistant'')), index_dirty = True\<rparr>,
      [FilesUpload (lit ''ad.txt'') (lit ''ad.txt''),
       AddFilesDeferred (Obj (lit ''index'')) (Obj (lit ''obj'')), OpWait (Obj (lit ''obj''))])"
  by (simp add: add_file_def index_file_def call_obj_def env_ok_def settled_yandex_def Let_def
      lit_def)

text \<open>
  The amended claim C2 at the upload of \<open>ad.txt\<close> into a manager whose flag is not set:
  the upload succeeds, the index is extended, and the flag is set afterwards.
\<close>

theorem dirty_after_add_and_clear_witness:
  "\<not> index_dirty settled_yandex \<and>
   add_file env_ok (lit ''ad.txt'') settled_yandex [] =
     (Inr (lit ''ad.txt''),
      \<lparr>search_index = Some (Obj (lit ''index'')),
       files = [(lit ''law.txt'', lit ''file-1''), (lit ''ad.txt'', lit ''obj'')],
       assistant = Some (Obj (lit ''assistant'')), index_dirty = True\<rparr>,
      [FilesUpload (lit ''ad.txt'') (lit ''ad.txt''),
       AddFilesDeferred (Obj (lit ''index'')) (Obj (lit ''obj'')), OpWait (Obj (lit ''obj''))]) \<and>
   index_dirty \<lparr>search_index = Some (Obj (lit ''index'')),
       files = [(lit ''law.txt'', lit ''file-1''), (lit ''ad.txt'', lit ''obj'')],
       assistant = Some (Obj (lit ''assistant'')), index_dirty = True\<rparr>"
  using dirty_after_add_and_clear [of env_ok "lit ''ad.txt''" settled_yandex "[]", THEN conjunct1,
      rule_format, OF add_ok] add_ok
  by (simp add: settled_yandex_def)

text \<open>
  Claim C2 as stated fails for \<open>remove_file\<close>: from a state with an up-to-date
  assistant (flag not set), removing the only file succeeds and leaves the flag unset.
\<close>

theorem remove_file_leaves_clean_counterexample:
  "fst (remove_file env_ok (lit ''law.txt'') settled_yandex []) = Inr () \<and>
   \<not> index_dirty (fst (snd (remove_file env_ok (lit ''law.txt'') settled_yandex []))) \<and>
   files (fst (snd (remove_file env_ok (lit ''law.txt'') settled_yandex []))) = []"
  by (simp add: remove_file_def settled_yandex_def Let_def lit_def)

text \<open>
  Claim C7. When the upload returns the file \<open>yc_file\<close> and the creation or extension
  of the index then raises \<open>e\<close>, \<open>add_file\<close> raises a \<open>RuntimeError\<close> with the
  indexing message, built from \<open>e\<close> and raised from \<open>e\<close>, and the entry from the name
  to the uploaded file's identifier stays in \<open>_files\<close>: nothing else of the object
  changes, nothing is rolled back.
\<close>

theorem add_file_indexing_failure_keeps_upload:
  assumes "call_obj E (FilesUpload file_path (path_name E file_path)) h = (Inr yc_file, h1)"
    and "index_file E yc_file
           (self\<lparr>files := AList.update (path_name E file_path) (obj_id yc_file) (files self)\<rparr>) h1
         = (Inl e, self2, h2)"
  shows "add_file E file_path self h =
           (Inl (Exn RuntimeError
                  (INDEX_ERR_1 @ path_name E file_path @ INDEX_ERR_2 @ parse_grpc_error e)
                  (Some e)),
            self\<lparr>files := AList.update (path_name E file_path) (obj_id yc_file) (files self)\<rparr>,
            h2) \<and>
         map_of (files (fst (snd (add_file E file_path self h)))) (path_name E file_path)
           = Some (obj_id yc_file)"
proof -
  from index_file_failure_keeps_state [OF assms(2)]
  have "self2 = self\<lparr>files := AList.update (path_name E file_path) (obj_id yc_file) (files self)\<rparr>" .
  with assms show ?thesis
    by (simp add: add_file_def Let_def update_conv')
qed

lemma upload_ok:
  "call_obj env_index_fails (FilesUpload (lit ''law.txt'') (path_name env_index_fails (lit ''law.txt''))) []
   = (Inr (Obj (lit ''file-7'')), [FilesUpload (lit ''law.txt'') (lit ''law.txt'')])"
  by (simp add: call_obj_def env_index_fails_def env_ok_def)

lemma index_fails:
  "index_file env_index_fails (Obj (lit ''file-7''))
     (fresh_yandex\<lparr>files := AList.update (path_name env_index_fails (lit ''law.txt''))
          (obj_id (Obj (lit ''file-7''))) (files fresh_yandex)\<rparr>)
     [FilesUpload (lit ''law.txt'') (lit ''law.txt'')]
   = (Inl (Exn RemoteError (lit ''INVALID_ARGUMENT'') None),
      fresh_yandex\<lparr>files := [(lit ''law.txt'', lit ''file-7'')]\<rparr>,
      [FilesUpload (lit ''law.txt'') (lit ''law.txt''), CreateDeferred (Obj (lit ''file-7'')),
       OpWait (Obj (lit ''file-7''))])"
  by (simp add: index_file_def call_obj_def env_index_fails_def env_ok_def fresh_yandex_def)

text \<open>
  Claim C7 at an environment in which waiting for the index operation raises.
\<close>

theorem add_file_indexing_failure_keeps_upload_witness:
  "add_file env_index_fails (lit ''law.txt'') fresh_yandex [] =
     (Inl (Exn RuntimeError
            (INDEX_ERR_1 @ lit ''law.txt'' @ INDEX_ERR_2 @
             parse_grpc_error (Exn RemoteError (lit ''INVALID_ARGUMENT'') None))
            (Some (Exn RemoteError (lit ''INVALID_ARGUMENT'') None))),
      \<lparr>search_index = None, files = [(lit ''law.txt'', lit ''file-7'')], assistant = None,
       index_dirty = True\<rparr>,
      [FilesUpload (lit ''law.txt'') (lit ''law.txt''), CreateDeferred (Obj (lit ''file-7'')),
       OpWait (Obj (lit ''file-7''))])"
  using add_file_indexing_failure_keeps_upload [OF upload_ok index_fails]
  by (simp add: env_index_fails_def env_ok_def fresh_yandex_def)

section \<open>Properties of the orchestrator\<close>

lemma only_appends_refl: "only_appends P h h"
  by (simp add: only_appends_def)

lemma only_appends_trans:
  "only_appends P h h1 \<Longrightarrow> only_appends P h1 h2 \<Longrightarrow> only_appends P h h2"
proof -
  assume a: "only_appends P h h1" and b: "only_appends P h1 h2"
  from a obtain n1 where n1: "h1 = h @ n1" "list_all P n1"
    unfolding only_appends_def by (metis append_take_drop_id)
  from b obtain n2 where n2: "h2 = h1 @ n2" "list_all P n2"
    unfolding only_appends_def by (metis append_take_drop_id)
  from n1 n2 show ?thesis by (simp add: only_appends_def)
qed

lemma call_obj_appends: "call_obj E c h = (r, h') \<Longrightarrow> P c \<Longrightarrow> only_appends P h h'"
  by (auto simp: call_obj_def only_appends_def)

lemma call_str_appends: "call_str E c h = (r, h') \<Longrightarrow> P c \<Longrightarrow> only_appends P h h'"
  by (auto simp: call_str_def only_appends_def)

lemma time_sleep_appends: "time_sleep E d h = (r, h') \<Longrightarrow> only_appends is_vision_call h h'"
  by (auto simp: time_sleep_def only_appends_def split: if_splits)

lemma retry_loop_appends:
  "retry_loop E' (call_obj E (GenerateContent img)) m bd a le h = (r, h') \<Longrightarrow>
   only_appends is_vision_call h h'"
proof (induction E' "call_obj E (GenerateContent img)" m bd a le h arbitrary: r h'
        rule: retry_loop.induct)
  case (1 E' m bd a le h)
  show ?case
  proof (cases "a < m + 1")
    case False
    with "1.prems" have "h' = h"
      by (subst (asm) retry_loop.simps) (auto split: option.splits)
    then show ?thesis by (simp add: only_appends_refl)
  next
    case True
    obtain r1 h1 where f: "call_obj E (GenerateContent img) h = (r1, h1)"
      by (cases "call_obj E (GenerateContent img) h")
    have s1: "only_appends is_vision_call h h1"
      using call_obj_appends [OF f] by simp
    show ?thesis
    proof (cases r1)
      case (Inr v)
      with "1.prems" True f have "h' = h1"
        by (subst (asm) retry_loop.simps) simp
      with s1 show ?thesis by simp
    next
      case (Inl e)
      show ?thesis
      proof (cases "is_rate_limit e \<and> a < m")
        case False
        with "1.prems" True f Inl have "h' = h1"
          by (subst (asm) retry_loop.simps) auto
        with s1 show ?thesis by simp
      next
        case rl: True
        obtain r2 h2 where sl: "time_sleep E' (bd * 2 ^ nat a) h1 = (r2, h2)"
          by (cases "time_sleep E' (bd * 2 ^ nat a) h1")
        have s2: "only_appends is_vision_call h1 h2" by (rule time_sleep_appends [OF sl])
        show ?thesis
        proof (cases r2)
          case (Inl e2)
          with "1.prems" True f \<open>r1 = Inl e\<close> rl sl have "h' = h2"
            by (subst (asm) retry_loop.simps) simp
          with s1 s2 show ?thesis by (metis only_appends_trans)
        next
          case (Inr u)
          with "1.prems" True f \<open>r1 = Inl e\<close> rl sl
          have rec: "retry_loop E' (call_obj E (GenerateContent img)) m bd (a + 1) (Some e) h2
                     = (r, h')"
            by (subst (asm) retry_loop.simps) simp
          have "only_appends is_vision_call h2 h'"
            by (rule "1.hyps" [OF True f [symmetric] \<open>r1 = Inl e\<close> rl sl [symmetric] Inr rec])
          with s1 s2 show ?thesis by (metis only_appends_trans)
        qed
      qed
    qed
  qed
qed


lemma describe_image_appends:
  assumes "describe_image E image_path h = (r, h')"
  shows "only_appends is_vision_call h h'"
proof -
  obtain r1 h1 where o: "call_obj E (ImageOpen image_path) h = (r1, h1)"
    by (cases "call_obj E (ImageOpen image_path) h")
  have s1: "only_appends is_vision_call h h1" using call_obj_appends [OF o] by simp
  show ?thesis
  proof (cases r1)
    case (Inl e)
    with assms o have "h' = h1" by (simp add: describe_image_def)
    with s1 show ?thesis by simp
  next
    case (Inr img0)
    obtain r2 h2 where rs:
      "(if 2048 < max (fst (image_size E img0)) (snd (image_size E img0))
        then call_obj E (ImageResize img0) h1 else (Inr img0, h1)) = (r2, h2)"
      by (cases "if 2048 < max (fst (image_size E img0)) (snd (image_size E img0))
                 then call_obj E (ImageResize img0) h1 else (Inr img0, h1)")
    have s2: "only_appends is_vision_call h1 h2"
    proof (cases "2048 < max (fst (image_size E img0)) (snd (image_size E img0))")
      case True
      with rs have "call_obj E (ImageResize img0) h1 = (r2, h2)" by simp
      from call_obj_appends [OF this] show ?thesis by simp
    next
      case False
      with rs have "h2 = h1" by simp
      then show ?thesis by (simp add: only_appends_refl)
    qed
    show ?thesis
    proof (cases r2)
      case (Inl e)
      with assms o Inr rs have "h' = h2" by (simp add: describe_image_def)
      with s1 s2 show ?thesis by (metis only_appends_trans)
    next
      case img: (Inr img)
      obtain r3 h3 where g:
        "retry_call E (call_obj E (GenerateContent img)) MAX_RETRIES RETRY_BASE_DELAY h2 = (r3, h3)"
        by (cases "retry_call E (call_obj E (GenerateContent img)) MAX_RETRIES RETRY_BASE_DELAY h2")
      have s3: "only_appends is_vision_call h2 h3"
        using g unfolding retry_call_def by (rule retry_loop_appends)
      show ?thesis
      proof (cases r3)
        case (Inl e)
        with assms o Inr rs img g have "h' = h3" by (simp add: describe_image_def)
        with s1 s2 s3 show ?thesis by (metis only_appends_trans)
      next
        case resp: (Inr response)
        with assms o Inr rs img g
        have "call_str E (ResponseText response) h3 = (r, h')" by (simp add: describe_image_def)
        from call_str_appends [OF this] have "only_appends is_vision_call h3 h'" by simp
        with s1 s2 s3 show ?thesis by (metis only_appends_trans)
      qed
    qed
  qed
qed

text \<open>
  Claim C6. When Yandex Cloud is configured and \<open>describe_image\<close> raises \<open>e\<close>,
  \<open>analyze_image\<close> returns the description error message followed by the first 200
  characters of \<open>str(e)\<close>. The engine, and with it the \<open>YandexRAG\<close> object, is
  returned untouched, and every call made is one of the image description path:
  \<open>YandexRAG.analyze\<close> is not invoked. \<open>RAGEngine.analyze\<close> with this image path, when
  it names a file, returns the same.
\<close>

theorem describe_failure_skips_agent:
  assumes "yandex self = Some y" and "describe_image E image_path h = (Inl e, h1)"
  shows "analyze_image E image_path t self h =
           (Inr (MSG_DESCRIBE_ERR @ take 200 (msg e)), self, h1) \<and>
         only_appends is_vision_call h h1 \<and>
         (image_path \<noteq> [] \<and> isfile E image_path \<longrightarrow>
            analyze E t (Some image_path) self h =
              (Inr (MSG_DESCRIBE_ERR @ take 200 (msg e)), self, h1))"
  using assms describe_image_appends [OF assms(2)] by (simp add: analyze_image_def analyze_def)

lemma describe_fails:
  "describe_image env_image_fails (lit ''ad.png'') [] =
     (Inl (Exn OSError (lit ''cannot identify image file'') None), [ImageOpen (lit ''ad.png'')])"
  by (simp add: describe_image_def call_obj_def env_image_fails_def env_ok_def)

lemma fresh_engine_yandex: "yandex fresh_engine = Some fresh_yandex"
  by (simp add: fresh_engine_def)

text \<open>
  Claim C6 at an environment in which opening the image raises.
\<close>

theorem describe_failure_skips_agent_witness:
  "analyze_image env_image_fails (lit ''ad.png'') (lit ''Sale!'') fresh_engine [] =
     (Inr (MSG_DESCRIBE_ERR @ take 200 (msg (Exn OSError (lit ''cannot identify image file'') None))),
      fresh_engine, [ImageOpen (lit ''ad.png'')]) \<and>
   only_appends is_vision_call [] [ImageOpen (lit ''ad.png'')] \<and>
   analyze env_image_fails (lit ''Sale!'') (Some (lit ''ad.png'')) fresh_engine [] =
     (Inr (MSG_DESCRIBE_ERR @ take 200 (msg (Exn OSError (lit ''cannot identify image file'') None))),
      fresh_engine, [ImageOpen (lit ''ad.png'')])"
proof -
  have f: "lit ''ad.png'' \<noteq> [] \<and> isfile env_image_fails (lit ''ad.png'')"
    by (simp add: env_image_fails_def env_ok_def lit_def)
  from describe_failure_skips_agent [OF fresh_engine_yandex describe_fails, of "lit ''Sale!''"] f
  show ?thesis by blast
qed

text \<open>
  Claim C9. When the image path is absent, empty or names no file, and the text is empty
  or only whitespace, \<open>RAGEngine.analyze\<close> returns the literal message that nothing was
  submitted; the engine and the history of calls are unchanged, so no remote call is
  made.
\<close>

theorem analyze_nothing_submitted:
  assumes "\<forall>p. image_path = Some p \<longrightarrow> p = [] \<or> \<not> isfile E p" and "strip t = []"
  shows "analyze E t image_path self h = (Inr MSG_NOTHING, self, h)"
  using assms by (cases image_path) (auto simp: analyze_def)

text \<open>
  Claim C9 at a whitespace-only text without an image, and at an empty text with the
  path of a missing image.
\<close>

theorem analyze_nothing_submitted_witness:
  "analyze env_ok [32, 10] None fresh_engine [] = (Inr MSG_NOTHING, fresh_engine, []) \<and>
   analyze env_ok [] (Some (lit ''missing.png'')) fresh_engine [] = (Inr MSG_NOTHING, fresh_engine, [])"
proof -
  have s: "strip [32, 10] = []" "strip [] = []" by (simp_all add: strip_def isspace_def)
  have f: "\<forall>p. Some (lit ''missing.png'') = Some p \<longrightarrow> p = [] \<or> \<not> isfile env_ok p"
    by (simp add: env_ok_def lit_def)
  from analyze_nothing_submitted [of None env_ok "[32, 10]" fresh_engine "[]"] s
       analyze_nothing_submitted [OF f s(2), of fresh_engine "[]"]
  show ?thesis by simp
qed

text \<open>
  Claim C3 (\<open>RAGEngine.analyze\<close> never raises) fails on the code. On a freshly
  constructed engine, when the remote creation of the assistant raises, the exception
  leaves \<open>_ensure_assistant\<close>, which \<open>YandexRAG.analyze\<close> calls before its
  \<open>try\<close>, and then \<open>analyze_text\<close> and \<open>RAGEngine.analyze\<close>: the result is the
  raised exception, not a string.
\<close>

theorem analyze_raises_when_assistant_creation_fails:
  "analyze env_create_fails (lit ''Buy now'') None fresh_engine [] =
     (Inl (Exn RemoteError (lit ''UNAVAILABLE'') None),
      fresh_engine, [AssistantsCreate []])"
proof -
  have s: "strip (lit ''Buy now'') \<noteq> []" by (simp add: strip_def isspace_def lit_def)
  have e: "ensure_assistant env_create_fails fresh_yandex [] =
           (Inl (Exn RemoteError (lit ''UNAVAILABLE'') None), fresh_yandex, [AssistantsCreate []])"
    by (simp add: ensure_assistant_def make_tools_def call_obj_def env_create_fails_def
        env_ok_def fresh_yandex_def Let_def)
  show ?thesis
    using s by (simp add: analyze_def analyze_text_def yandex_analyze_def e fresh_engine_def Let_def)
qed

section \<open>Properties of the plain text loader\<close>

lemma codec_exn_kind: "kind (codec_exn f) = UnicodeDecodeError \<or> kind (codec_exn f) = LookupError"
  by (cases f) (simp_all add: codec_exn_def)

lemma open_read_cases:
  "(\<exists>m. file i = Inl m \<and> open_read C file i enc = Inl (Exn OSError m None)) \<or>
   (\<exists>bs f. file i = Inr bs \<and> open_read C file i enc = Inl (codec_exn f) \<and> enc \<noteq> Latin1) \<or>
   (\<exists>bs t. file i = Inr bs \<and> open_read C file i enc = Inr t)"
  by (cases "file i"; cases enc)
     (auto simp: open_read_def decode_def split: sum.splits)

lemma load_txt_loop_result:
  "(\<exists>t. load_txt_loop C file path (encs @ [Latin1]) i = Inr t) \<or>
   (\<exists>j m. i \<le> j \<and> j \<le> i + length encs \<and> file j = Inl m \<and>
          load_txt_loop C file path (encs @ [Latin1]) i = Inl (Exn OSError m None))"
proof (induction encs arbitrary: i)
  case Nil
  from open_read_cases [of "file" i C Latin1] show ?case by auto
next
  case (Cons enc encs)
  from open_read_cases [of "file" i C enc] show ?case
  proof (elim disjE exE conjE)
    fix m assume "file i = Inl m" "open_read C file i enc = Inl (Exn OSError m None)"
    then show ?thesis by auto
  next
    fix bs f assume a: "file i = Inr bs" "open_read C file i enc = Inl (codec_exn f)"
    with codec_exn_kind [of f]
    have "load_txt_loop C file path ((enc # encs) @ [Latin1]) i =
          load_txt_loop C file path (encs @ [Latin1]) (i + 1)" by auto
    with Cons.IH [of "i + 1"] show ?thesis
      by (metis (no_types, lifting) Suc_eq_plus1 Suc_leD add_Suc_shift length_Cons)
  next
    fix bs t assume "file i = Inr bs" "open_read C file i enc = Inr t"
    then show ?thesis by auto
  qed
qed

text \<open>
  Claim C10. Whatever the codecs \<open>utf-8\<close> and \<open>cp1251\<close> do and whatever the file
  holds, \<open>_load_txt\<close> never raises its own error for an unreadable file. An exception
  that leaves it is an operating system error of one of the at most three openings of
  the file, unchanged; when the file can be opened and read each time, a text is
  returned.
\<close>

theorem load_txt_never_unreadable:
  "load_txt C file path \<noteq> Inl (Exn ValueError (UNREADABLE_PREFIX @ path) None) \<and>
   (\<forall>e. load_txt C file path = Inl e \<longrightarrow> (\<exists>j<3. file j = Inl (msg e)) \<and> e = Exn OSError (msg e) None) \<and>
   ((\<forall>j<3. \<exists>bs. file j = Inr bs) \<longrightarrow> (\<exists>t. load_txt C file path = Inr t))"
proof -
  from load_txt_loop_result [of C "file" path "[Utf8, Cp1251]" 0]
  have "(\<exists>t. load_txt C file path = Inr t) \<or>
        (\<exists>j m. j < 3 \<and> file j = Inl m \<and> load_txt C file path = Inl (Exn OSError m None))"
    by (auto simp: load_txt_def)
  then show ?thesis
  proof
    assume "\<exists>t. load_txt C file path = Inr t"
    then show ?thesis by auto
  next
    assume "\<exists>j m. j < 3 \<and> file j = Inl m \<and> load_txt C file path = Inl (Exn OSError m None)"
    then obtain j m where jm: "j < 3" "file j = Inl m" "load_txt C file path = Inl (Exn OSError m None)"
      by blast
    then show ?thesis by auto
  qed
qed

text \<open>
  Claim C10 at codecs that reject everything: the bytes \<open>FF 98 0D 0A\<close> are decoded by
  \<open>latin-1\<close>, and a missing file gives the operating system's error.
\<close>

theorem load_txt_never_unreadable_witness:
  "load_txt codecs_rejecting (\<lambda>i. Inr [255, 152, 13, 10]) (lit ''law.txt'') = Inr [255, 152, 10] \<and>
   load_txt codecs_rejecting (\<lambda>i. Inl (lit ''No such file or directory'')) (lit ''law.txt'')
     = Inl (Exn OSError (lit ''No such file or directory'') None)"
proof -
  have a: "load_txt codecs_rejecting (\<lambda>i. Inr [255, 152, 13, 10]) (lit ''law.txt'') = Inr [255, 152, 10]"
    by (simp add: load_txt_def open_read_def decode_def codecs_rejecting_def codec_exn_def)
  have b: "load_txt codecs_rejecting (\<lambda>i. Inl (lit ''No such file or directory'')) (lit ''law.txt'')
     = Inl (Exn OSError (lit ''No such file or directory'') None)"
    by (simp add: load_txt_def open_read_def)
  note t1 = load_txt_never_unreadable [of codecs_rejecting "\<lambda>i. Inr [255, 152, 13, 10]" "lit ''law.txt''"]
  note t2 = load_txt_never_unreadable [of codecs_rejecting "\<lambda>i. Inl (lit ''No such file or directory'')" "lit ''law.txt''"]
  from t1 t2 a b show ?thesis by blast
qed

end
